theory Spec2Isabelle
  imports Main "HOL-Library.Word"
begin

section \<open>The snake logger: a shallow embedding\<close>

text \<open>
  The repository holds three snapshots of one Go package, \<^verbatim>\<open>snakeLoggerFile\<close>.
  \<^verbatim>\<open>snakeLogger.go\<close> carries two of them back to back and \<^verbatim>\<open>part_000\<close> the third.
  They are told apart here by a suffix, in the order in which the code grew:
  \<^item> \<open>_v1\<close>: the second snapshot of \<^verbatim>\<open>snakeLogger.go\<close> (records with a single
    \<^verbatim>\<open>Time\<close> field, one text sink routed by id);
  \<^item> \<open>_v2\<close>: the first snapshot of \<^verbatim>\<open>snakeLogger.go\<close> (turn and function context, the
    text sink routed by id, and a second sink that writes JSON);
  \<^item> \<open>_v3\<close>: \<^verbatim>\<open>part_000\<close> (the \<^verbatim>\<open>report\<close> level, the snake name, one text sink routed
    by name).
  A declaration that all snapshots share word for word appears once, without suffix.

  Strings are Go strings, that is byte sequences: \<^typ>\<open>string\<close> is a list of 8-bit
  characters, \<^const>\<open>length\<close> is \<^verbatim>\<open>len\<close> and \<^const>\<open>drop\<close> is slicing by byte offset.
\<close>

subsection \<open>Go primitives\<close>

type_synonym int64 = "64 word"
type_synonym uint64 = "64 word"
type_synonym goint = "64 word"  \<comment> \<open>\<^verbatim>\<open>int\<close> on the 64-bit Linux hosts the code is written for\<close>

text \<open>A run-time panic of the Go runtime; the one the package can raise is the slice
  expression \<^verbatim>\<open>s[lo:]\<close> with \<^verbatim>\<open>lo > len(s)\<close>, reported with both numbers.\<close>

datatype panic = SliceBoundsOutOfRange nat nat

text \<open>\<^verbatim>\<open>strings.HasPrefix(s, prefix)\<close>.\<close>

definition HasPrefix :: "string \<Rightarrow> string \<Rightarrow> bool" where
  "HasPrefix s prefix \<longleftrightarrow> length prefix \<le> length s \<and> take (length prefix) s = prefix"

text \<open>The slice expression \<^verbatim>\<open>s[lo:]\<close>.\<close>

definition slice_from :: "string \<Rightarrow> nat \<Rightarrow> panic + string" where
  "slice_from s lo =
     (if length s < lo then Inl (SliceBoundsOutOfRange lo (length s)) else Inr (drop lo s))"

text \<open>Reading a map at a key, \<^verbatim>\<open>m[k]\<close>: the zero value, the empty string, when the key
  is absent. The map literal is kept as the list of its entries.\<close>

definition map_index :: "('k \<times> string) list \<Rightarrow> 'k \<Rightarrow> string" where
  "map_index m k = (case map_of m k of None \<Rightarrow> [] | Some v \<Rightarrow> v)"

text \<open>A \<^verbatim>\<open>for l, v := range m\<close> loop visits every entry of the map once, in an order the
  language leaves open. The order of one run is a parameter of the model.\<close>

definition range_order :: "('k \<times> 'v) list \<Rightarrow> ('k \<times> 'v) list \<Rightarrow> bool" where
  "range_order m ord \<longleftrightarrow> distinct ord \<and> set ord = set m"

text \<open>Decimal numerals, as \<^verbatim>\<open>strconv\<close> and the verb \<^verbatim>\<open>%v\<close> print integers: the
  digits are read off a table.\<close>

definition digits :: string where
  "digits = ''0123456789''"

fun decimal :: "nat \<Rightarrow> string" where
  "decimal n =
     (if n < 10 then [digits ! n] else decimal (n div 10) @ [digits ! (n mod 10)])"

declare decimal.simps [simp del]

definition FormatInt :: "int \<Rightarrow> string" where
  "FormatInt i = (if i < 0 then CHR ''-'' # decimal (nat (- i)) else decimal (nat i))"

text \<open>
  \<^verbatim>\<open>fmt.Sprintf\<close>, for the formats the package itself writes: literal text and the plain
  verbs \<^verbatim>\<open>%v\<close>, \<^verbatim>\<open>%s\<close> and \<^verbatim>\<open>%d\<close> on string and integer operands, with the diagnostics
  of the library for a wrong, missing or surplus operand. Flags, widths, precisions and
  the other verbs are outside this fragment.
\<close>

datatype fmt_arg = ArgString string | ArgInt goint | ArgInt64 int64

fun fmt_value :: "fmt_arg \<Rightarrow> string" where
  "fmt_value (ArgString s) = s"
| "fmt_value (ArgInt i) = FormatInt (sint i)"
| "fmt_value (ArgInt64 i) = FormatInt (sint i)"

fun fmt_type :: "fmt_arg \<Rightarrow> string" where
  "fmt_type (ArgString s) = ''string''"
| "fmt_type (ArgInt i) = ''int''"
| "fmt_type (ArgInt64 i) = ''int64''"

definition fmt_badverb :: "char \<Rightarrow> fmt_arg \<Rightarrow> string" where
  "fmt_badverb v a = ''%!'' @ [v] @ ''('' @ fmt_type a @ ''='' @ fmt_value a @ '')''"

fun fmt_verb :: "char \<Rightarrow> fmt_arg \<Rightarrow> string" where
  "fmt_verb v (ArgString s) =
     (if v = CHR ''v'' \<or> v = CHR ''s'' then s else fmt_badverb v (ArgString s))"
| "fmt_verb v (ArgInt i) =
     (if v = CHR ''v'' \<or> v = CHR ''d'' then FormatInt (sint i) else fmt_badverb v (ArgInt i))"
| "fmt_verb v (ArgInt64 i) =
     (if v = CHR ''v'' \<or> v = CHR ''d'' then FormatInt (sint i) else fmt_badverb v (ArgInt64 i))"

fun fmt_extra :: "fmt_arg list \<Rightarrow> string" where
  "fmt_extra [] = []"
| "fmt_extra [a] = fmt_type a @ ''='' @ fmt_value a"
| "fmt_extra (a # b # as) = fmt_type a @ ''='' @ fmt_value a @ '', '' @ fmt_extra (b # as)"

fun Sprintf :: "string \<Rightarrow> fmt_arg list \<Rightarrow> string" where
  "Sprintf [] [] = []"
| "Sprintf [] (a # as) = ''%!(EXTRA '' @ fmt_extra (a # as) @ '')''"
| "Sprintf [c] as =
     (if c = CHR ''%'' then ''%!(NOVERB)'' @ Sprintf [] as else c # Sprintf [] as)"
| "Sprintf (c # v # fs) as =
     (if c \<noteq> CHR ''%'' then c # Sprintf (v # fs) as
      else if v = CHR ''%'' then CHR ''%'' # Sprintf fs as
      else (case as of
              [] \<Rightarrow> ''%!'' @ [v] @ ''(MISSING)'' @ Sprintf fs []
            | a # as' \<Rightarrow> fmt_verb v a @ Sprintf fs as'))"

text \<open>A \<^verbatim>\<open>time.Time\<close> value, through the two observations the package makes of it:
  \<^verbatim>\<open>t.UnixNano()\<close> and \<^verbatim>\<open>t.Format(layout)\<close>.\<close>

record GoTime =
  UnixNano :: int64
  Format :: "string \<Rightarrow> string"

subsection \<open>Levels\<close>

text \<open>\<^verbatim>\<open>type SnakeLoggerLevel uint8\<close> with constants numbered by \<^verbatim>\<open>iota\<close>. The first four are
  the same in every snapshot; \<open>_v3\<close> puts \<^verbatim>\<open>ReportLevel\<close> before \<^verbatim>\<open>NullLevel\<close>.\<close>

type_synonym SnakeLoggerLevel = "8 word"

definition DebugLevel :: SnakeLoggerLevel where "DebugLevel = 0"
definition InfoLevel :: SnakeLoggerLevel where "InfoLevel = 1"
definition WarnLevel :: SnakeLoggerLevel where "WarnLevel = 2"
definition ErrorLevel :: SnakeLoggerLevel where "ErrorLevel = 3"
definition NullLevel_v2 :: SnakeLoggerLevel where "NullLevel_v2 = 4"
definition ReportLevel :: SnakeLoggerLevel where "ReportLevel = 4"
definition NullLevel_v3 :: SnakeLoggerLevel where "NullLevel_v3 = 5"

definition levelMap_v2 :: "(SnakeLoggerLevel \<times> string) list" where
  "levelMap_v2 =
     [(DebugLevel, ''debug''), (InfoLevel, ''info''), (WarnLevel, ''warn''),
      (ErrorLevel, ''error''), (NullLevel_v2, ''null'')]"

definition levelMap_v3 :: "(SnakeLoggerLevel \<times> string) list" where
  "levelMap_v3 =
     [(DebugLevel, ''debug''), (InfoLevel, ''info''), (WarnLevel, ''warn''),
      (ErrorLevel, ''error''), (NullLevel_v3, ''null''), (ReportLevel, ''report'')]"

subsection \<open>The oldest snapshot: records and their text line\<close>

record LogData_v1 =
  ID :: string
  Sev :: string
  Msg :: string
  Time :: int64

definition String_v1 :: "LogData_v1 \<Rightarrow> string" where
  "String_v1 l =
     Sprintf ''%v [%s] %s \<newline>'' [ArgInt64 (Time l), ArgString (Sev l), ArgString (Msg l)]"

definition StringWithID_v1 :: "LogData_v1 \<Rightarrow> string" where
  "StringWithID_v1 l =
     Sprintf ''%v [%s] %s %s \<newline>''
       [ArgInt64 (Time l), ArgString (Sev l), ArgString (ID l), ArgString (Msg l)]"

definition Bytes_v1 :: "LogData_v1 \<Rightarrow> string" where
  "Bytes_v1 l = String_v1 l"

subsection \<open>The file system and the writer's fate\<close>

text \<open>
  The writers touch the world through \<^verbatim>\<open>os.OpenFile\<close> with
  \<^verbatim>\<open>O_APPEND|O_CREATE|O_WRONLY\<close>, \<^verbatim>\<open>f.Write\<close>, \<^verbatim>\<open>f.Close\<close> and \<^verbatim>\<open>fmt.Println\<close>. The world is
  the contents of the files, by path, and the lines printed on standard output.
\<close>

record World =
  files :: "string \<rightharpoonup> string"
  stdout :: "string list"

definition Println :: "World \<Rightarrow> string \<Rightarrow> World" where
  "Println w line = w\<lparr>stdout := stdout w @ [line]\<rparr>"

definition content :: "World \<Rightarrow> string \<Rightarrow> string" where
  "content w path = (case files w path of None \<Rightarrow> [] | Some bytes \<Rightarrow> bytes)"

definition OpenFile :: "World \<Rightarrow> string \<Rightarrow> World" where
  "OpenFile w path = w\<lparr>files := (files w)(path \<mapsto> content w path)\<rparr>"

definition Write :: "World \<Rightarrow> string \<Rightarrow> string \<Rightarrow> World" where
  "Write w path bytes = w\<lparr>files := (files w)(path \<mapsto> content w path @ bytes)\<rparr>"

text \<open>What the operating system answers during one turn of a writer's loop: for each of
  the three calls either success or the text of the error. A write that fails leaves the
  file as it was.\<close>

record FileOps =
  open_err :: "string option"
  write_err :: "string option"
  close_err :: "string option"

text \<open>How one turn of the loop ends: on to the next record, out of the loop by \<^verbatim>\<open>break\<close>,
  or out of the process by \<^verbatim>\<open>log.Fatal\<close>.\<close>

datatype LoopStep = Continue | Break | Fatal string

text \<open>
  The state of a writer once it has taken every record sent so far. The channels are
  never closed, so a writer that is still in its loop is blocked on the receive; after a
  \<^verbatim>\<open>break\<close> the function has returned and only the goroutine is gone; \<^verbatim>\<open>log.Fatal\<close>
  prints the error and calls \<^verbatim>\<open>os.Exit(1)\<close>, which ends the process.
\<close>

datatype Outcome = Blocked | Returned | Exited string

fun process_terminated :: "Outcome \<Rightarrow> bool" where
  "process_terminated (Exited e) = True"
| "process_terminated Blocked = False"
| "process_terminated Returned = False"

fun task_terminated :: "Outcome \<Rightarrow> bool" where
  "task_terminated Blocked = False"
| "task_terminated Returned = True"
| "task_terminated (Exited e) = True"

text \<open>The start of each writer: \<^verbatim>\<open>HOME\<close> from the environment and the answer of
  its one call of \<^verbatim>\<open>os.Mkdir\<close>, where \<open>MkdirErrExist\<close> is an error for which
  \<^verbatim>\<open>errors.Is(err, os.ErrExist)\<close> holds.\<close>

datatype MkdirResult = MkdirOK | MkdirErrExist | MkdirErr string

record Env =
  HOME :: string
  Mkdir :: MkdirResult

definition setup_dir :: "Env \<Rightarrow> World \<Rightarrow> string \<times> World" where
  "setup_dir env w =
     (if HOME env = [] then (''/tmp'', Println w ''cannot get home dir, sending to tmp'')
      else (HOME env, w))"

definition setup_mkdir :: "Env \<Rightarrow> string \<Rightarrow> World \<Rightarrow> World" where
  "setup_mkdir env basedir w =
     (case Mkdir env of
        MkdirErr e \<Rightarrow> Println w (''I don't understand this error:  '' @ e)
      | _ \<Rightarrow> w)"

subsection \<open>The oldest snapshot: the text sink, routed by id\<close>

definition writeToFile_v1_iter ::
  "string \<Rightarrow> LogData_v1 \<Rightarrow> FileOps \<Rightarrow> World \<Rightarrow> LoopStep \<times> World" where
  "writeToFile_v1_iter basedir m ops w =
     (let filename = (if ID m = [] then basedir @ ''/generic.log''
                      else basedir @ ''/game-'' @ ID m @ ''.log'')
      in case open_err ops of
           Some e \<Rightarrow> (Fatal e, w)
         | None \<Rightarrow>
             (let w1 = OpenFile w filename
              in case write_err ops of
                   Some e \<Rightarrow> (Break, Println w1 e)
                 | None \<Rightarrow>
                     (let w2 = Write w1 filename (Bytes_v1 m)
                      in case close_err ops of
                           Some e \<Rightarrow> (Continue, Println w2 e)
                         | None \<Rightarrow> (Continue, w2))))"

fun writeToFile_v1_loop ::
  "string \<Rightarrow> (LogData_v1 \<times> FileOps) list \<Rightarrow> World \<Rightarrow> Outcome \<times> World" where
  "writeToFile_v1_loop basedir [] w = (Blocked, w)"
| "writeToFile_v1_loop basedir ((m, ops) # c) w =
     (case writeToFile_v1_iter basedir m ops w of
        (Continue, w') \<Rightarrow> writeToFile_v1_loop basedir c w'
      | (Break, w') \<Rightarrow> (Returned, w')
      | (Fatal e, w') \<Rightarrow> (Exited e, w'))"

definition writeToFile_v1 ::
  "Env \<Rightarrow> (LogData_v1 \<times> FileOps) list \<Rightarrow> World \<Rightarrow> Outcome \<times> World" where
  "writeToFile_v1 env c w =
     (let (dir, w1) = setup_dir env w;
          basedir = dir @ ''/battlesnakeLogs'';
          w2 = setup_mkdir env basedir w1
      in writeToFile_v1_loop basedir c w2)"

subsection \<open>The middle snapshot: logger, records, text sink by id, JSON sink\<close>

record LogData_v2 =
  ID :: string
  Sev :: string
  Msg :: string
  Timestamp :: string
  UnixTimeStamp :: int64
  Turn :: goint
  Function :: string

text \<open>The field \<^verbatim>\<open>id\<close> of the logger is \<open>id_field\<close> here, \<^const>\<open>id\<close> being the identity
  function.\<close>

record SnakeLogger_v2 =
  level :: SnakeLoggerLevel
  isNull :: bool
  id_field :: string
  currentFunc :: string
  currentTurn :: goint

definition updateLogLevel :: "'a SnakeLogger_v2_scheme \<Rightarrow> SnakeLoggerLevel \<Rightarrow> 'a SnakeLogger_v2_scheme" where
  "updateLogLevel s l = s\<lparr>level := l\<rparr>"

definition UpdateID :: "'a SnakeLogger_v2_scheme \<Rightarrow> string \<Rightarrow> 'a SnakeLogger_v2_scheme" where
  "UpdateID s newid = s\<lparr>id_field := newid\<rparr>"

definition UpdateFunc :: "'a SnakeLogger_v2_scheme \<Rightarrow> string \<Rightarrow> 'a SnakeLogger_v2_scheme" where
  "UpdateFunc s f = s\<lparr>currentFunc := f\<rparr>"

definition ResetFunc :: "'a SnakeLogger_v2_scheme \<Rightarrow> 'a SnakeLogger_v2_scheme" where
  "ResetFunc s = s\<lparr>currentFunc := []\<rparr>"

definition UpdateTurn :: "'a SnakeLogger_v2_scheme \<Rightarrow> goint \<Rightarrow> 'a SnakeLogger_v2_scheme" where
  "UpdateTurn s t = s\<lparr>currentTurn := t\<rparr>"

text \<open>
  \<^verbatim>\<open>parseLog\<close> runs in a goroutine of its own and ends in one of three ways: it returns
  at the threshold test without sending (\<open>Inr None\<close>), it sends a record on
  \<^verbatim>\<open>writeChan\<close> (\<open>Inr (Some r)\<close>), or the slice \<^verbatim>\<open>msg[8:]\<close> panics before the send
  (\<open>Inl p\<close>).
\<close>

definition parseLog_v2 ::
  "SnakeLogger_v2 \<Rightarrow> SnakeLoggerLevel \<Rightarrow> string \<Rightarrow> GoTime \<Rightarrow> panic + LogData_v2 option" where
  "parseLog_v2 s lv msg t =
     (if level s > lv then Inr None
      else
        (let timestamp = Format t ''2006-01-02T15:04:05.000000000'';
             unixstamp = UnixNano t;
             thisLog = \<lparr>ID = id_field s, Sev = map_index levelMap_v2 lv, Msg = msg,
                        Timestamp = timestamp, UnixTimeStamp = unixstamp,
                        Turn = currentTurn s, Function = currentFunc s\<rparr>
         in if HasPrefix msg ''GENERIC''
            then (case slice_from msg 8 of
                    Inl p \<Rightarrow> Inl p
                  | Inr rest \<Rightarrow> Inr (Some (thisLog\<lparr>Msg := rest, ID := []\<rparr>)))
            else Inr (Some thisLog)))"

text \<open>The exported methods. \<^verbatim>\<open>time.Now()\<close> is the argument \<open>now\<close>; the formatting
  variants take \<^verbatim>\<open>fmt.Sprintf\<close> as the argument \<open>sprintf\<close>, the caller's format and
  operands being arbitrary.\<close>

definition Debugf_v2 ::
  "(string \<Rightarrow> 'v list \<Rightarrow> string) \<Rightarrow> SnakeLogger_v2 \<Rightarrow> string \<Rightarrow> 'v list \<Rightarrow> GoTime
     \<Rightarrow> panic + LogData_v2 option" where
  "Debugf_v2 sprintf s format v now = parseLog_v2 s DebugLevel (sprintf format v) now"

definition Infof_v2 ::
  "(string \<Rightarrow> 'v list \<Rightarrow> string) \<Rightarrow> SnakeLogger_v2 \<Rightarrow> string \<Rightarrow> 'v list \<Rightarrow> GoTime
     \<Rightarrow> panic + LogData_v2 option" where
  "Infof_v2 sprintf s format v now = parseLog_v2 s InfoLevel (sprintf format v) now"

definition Errorf_v2 ::
  "(string \<Rightarrow> 'v list \<Rightarrow> string) \<Rightarrow> SnakeLogger_v2 \<Rightarrow> string \<Rightarrow> 'v list \<Rightarrow> GoTime
     \<Rightarrow> panic + LogData_v2 option" where
  "Errorf_v2 sprintf s format v now = parseLog_v2 s ErrorLevel (sprintf format v) now"

definition Debug_v2 :: "SnakeLogger_v2 \<Rightarrow> string \<Rightarrow> GoTime \<Rightarrow> panic + LogData_v2 option" where
  "Debug_v2 s m now = parseLog_v2 s DebugLevel m now"

definition Info_v2 :: "SnakeLogger_v2 \<Rightarrow> string \<Rightarrow> GoTime \<Rightarrow> panic + LogData_v2 option" where
  "Info_v2 s m now = parseLog_v2 s InfoLevel m now"

definition Error_v2 :: "SnakeLogger_v2 \<Rightarrow> string \<Rightarrow> GoTime \<Rightarrow> panic + LogData_v2 option" where
  "Error_v2 s m now = parseLog_v2 s ErrorLevel m now"

text \<open>\<^verbatim>\<open>NewLogger\<close>: the loop over \<^verbatim>\<open>levelMap\<close> takes the first entry, in the order of this
  run, whose name is the given one, and stops there.\<close>

fun NewLogger_loop ::
  "string \<Rightarrow> (SnakeLoggerLevel \<times> string) list \<Rightarrow> 'a SnakeLogger_v2_scheme
     \<Rightarrow> 'a SnakeLogger_v2_scheme" where
  "NewLogger_loop lvname [] s = s"
| "NewLogger_loop lvname ((l, v) # rest) s =
     (if v = lvname then s\<lparr>level := l\<rparr> else NewLogger_loop lvname rest s)"

definition NewLogger_v2 ::
  "string \<Rightarrow> uint64 \<Rightarrow> (SnakeLoggerLevel \<times> string) list \<Rightarrow> SnakeLogger_v2" where
  "NewLogger_v2 lvname index ord =
     NewLogger_loop lvname ord
       \<lparr>level = InfoLevel, isNull = False, id_field = [], currentFunc = [], currentTurn = 0\<rparr>"

definition String_v2 :: "LogData_v2 \<Rightarrow> string" where
  "String_v2 l =
     Sprintf ''%v [%s] %s \<newline>''
       [ArgInt64 (UnixTimeStamp l), ArgString (LogData_v2.Sev l), ArgString (LogData_v2.Msg l)]"

definition StringWithID_v2 :: "LogData_v2 \<Rightarrow> string" where
  "StringWithID_v2 l =
     Sprintf ''%v [%s] %s %s \<newline>''
       [ArgInt64 (UnixTimeStamp l), ArgString (LogData_v2.Sev l), ArgString (LogData_v2.ID l),
        ArgString (LogData_v2.Msg l)]"

definition Bytes_v2 :: "LogData_v2 \<Rightarrow> string" where
  "Bytes_v2 l = String_v2 l"

definition writeToFile_v2_iter ::
  "string \<Rightarrow> LogData_v2 \<Rightarrow> FileOps \<Rightarrow> World \<Rightarrow> LoopStep \<times> World" where
  "writeToFile_v2_iter basedir m ops w =
     (let filename = (if LogData_v2.ID m = [] then basedir @ ''/generic.log''
                      else basedir @ ''/game-'' @ LogData_v2.ID m @ ''.log'')
      in case open_err ops of
           Some e \<Rightarrow> (Fatal e, w)
         | None \<Rightarrow>
             (let w1 = OpenFile w filename
              in case write_err ops of
                   Some e \<Rightarrow> (Break, Println w1 e)
                 | None \<Rightarrow>
                     (let w2 = Write w1 filename (Bytes_v2 m)
                      in case close_err ops of
                           Some e \<Rightarrow> (Continue, Println w2 e)
                         | None \<Rightarrow> (Continue, w2))))"

fun writeToFile_v2_loop ::
  "string \<Rightarrow> (LogData_v2 \<times> FileOps) list \<Rightarrow> World \<Rightarrow> Outcome \<times> World" where
  "writeToFile_v2_loop basedir [] w = (Blocked, w)"
| "writeToFile_v2_loop basedir ((m, ops) # c) w =
     (case writeToFile_v2_iter basedir m ops w of
        (Continue, w') \<Rightarrow> writeToFile_v2_loop basedir c w'
      | (Break, w') \<Rightarrow> (Returned, w')
      | (Fatal e, w') \<Rightarrow> (Exited e, w'))"

definition writeToFile_v2 ::
  "Env \<Rightarrow> (LogData_v2 \<times> FileOps) list \<Rightarrow> World \<Rightarrow> Outcome \<times> World" where
  "writeToFile_v2 env c w =
     (let (dir, w1) = setup_dir env w;
          basedir = dir @ ''/battlesnakeLogs'';
          w2 = setup_mkdir env basedir w1
      in writeToFile_v2_loop basedir c w2)"

text \<open>
  \<^verbatim>\<open>json.Marshal\<close> of a \<^verbatim>\<open>LogData\<close>: one object, the exported fields in the order of
  their declaration under their own names, no white space. A string field is written by
  the library's string encoder, the parameter \<open>quote\<close>; an integer field is its
  decimal. For this struct the library has no error to report.
\<close>

definition json_Marshal :: "(string \<Rightarrow> string) \<Rightarrow> LogData_v2 \<Rightarrow> string + string" where
  \<open>json_Marshal quote m =
     Inr (''{"ID":'' @ quote (LogData_v2.ID m) @
          '',"Sev":'' @ quote (LogData_v2.Sev m) @
          '',"Msg":'' @ quote (LogData_v2.Msg m) @
          '',"Timestamp":'' @ quote (Timestamp m) @
          '',"UnixTimeStamp":'' @ FormatInt (sint (UnixTimeStamp m)) @
          '',"Turn":'' @ FormatInt (sint (Turn m)) @
          '',"Function":'' @ quote (Function m) @ ''}'')\<close>

text \<open>The string encoder for a string that needs no escape: the string between double
  quotes.\<close>

definition quote_plain :: "string \<Rightarrow> string" where
  \<open>quote_plain s = ''"'' @ s @ ''"''\<close>

definition writeJSONToFile_iter ::
  "(string \<Rightarrow> string) \<Rightarrow> string \<Rightarrow> LogData_v2 \<Rightarrow> FileOps \<Rightarrow> World \<Rightarrow> LoopStep \<times> World" where
  "writeJSONToFile_iter quote filename m ops w =
     (case json_Marshal quote m of
        Inl e \<Rightarrow> (Break, Println w e)
      | Inr jsoncontent \<Rightarrow>
          (case open_err ops of
             Some e \<Rightarrow> (Break, Println w e)
           | None \<Rightarrow>
               (let w1 = OpenFile w filename
                in case write_err ops of
                     Some e \<Rightarrow> (Break, Println w1 e)
                   | None \<Rightarrow>
                       (let w2 = Write w1 filename jsoncontent
                        in case close_err ops of
                             Some e \<Rightarrow> (Continue, Println w2 e)
                           | None \<Rightarrow> (Continue, w2)))))"

fun writeJSONToFile_loop ::
  "(string \<Rightarrow> string) \<Rightarrow> string \<Rightarrow> (LogData_v2 \<times> FileOps) list \<Rightarrow> World
     \<Rightarrow> Outcome \<times> World" where
  "writeJSONToFile_loop quote filename [] w = (Blocked, w)"
| "writeJSONToFile_loop quote filename ((m, ops) # c) w =
     (case writeJSONToFile_iter quote filename m ops w of
        (Continue, w') \<Rightarrow> writeJSONToFile_loop quote filename c w'
      | (Break, w') \<Rightarrow> (Returned, w')
      | (Fatal e, w') \<Rightarrow> (Exited e, w'))"

definition writeJSONToFile ::
  "(string \<Rightarrow> string) \<Rightarrow> Env \<Rightarrow> (LogData_v2 \<times> FileOps) list \<Rightarrow> World \<Rightarrow> Outcome \<times> World" where
  "writeJSONToFile quote env c w =
     (let (dir, w1) = setup_dir env w;
          basedir = dir @ ''/battlesnakeJSON'';
          filename = basedir @ ''/battlesnake.json'';
          w2 = setup_mkdir env basedir w1
      in writeJSONToFile_loop quote filename c w2)"

subsection \<open>The latest snapshot: report level, snake name, text sink by name\<close>

record LogData_v3 = LogData_v2 +
  SnakeName :: string

record SnakeLogger_v3 = SnakeLogger_v2 +
  name :: string

definition UpdateName :: "SnakeLogger_v3 \<Rightarrow> string \<Rightarrow> SnakeLogger_v3" where
  "UpdateName s n = s\<lparr>name := n\<rparr>"

definition parseLog_v3 ::
  "SnakeLogger_v3 \<Rightarrow> SnakeLoggerLevel \<Rightarrow> string \<Rightarrow> GoTime \<Rightarrow> panic + LogData_v3 option" where
  "parseLog_v3 s lv msg t =
     (if level s > lv then Inr None
      else
        (let timestamp = Format t ''2006-01-02T15:04:05.000000000'';
             unixstamp = UnixNano t;
             thisLog = \<lparr>ID = id_field s, Sev = map_index levelMap_v3 lv, Msg = msg,
                        Timestamp = timestamp, UnixTimeStamp = unixstamp,
                        Turn = currentTurn s, Function = currentFunc s,
                        SnakeName = name s\<rparr>
         in if HasPrefix msg ''GENERIC''
            then (case slice_from msg 8 of
                    Inl p \<Rightarrow> Inl p
                  | Inr rest \<Rightarrow> Inr (Some (thisLog\<lparr>Msg := rest, ID := []\<rparr>)))
            else Inr (Some thisLog)))"

definition Debugf_v3 ::
  "(string \<Rightarrow> 'v list \<Rightarrow> string) \<Rightarrow> SnakeLogger_v3 \<Rightarrow> string \<Rightarrow> 'v list \<Rightarrow> GoTime
     \<Rightarrow> panic + LogData_v3 option" where
  "Debugf_v3 sprintf s format v now = parseLog_v3 s DebugLevel (sprintf format v) now"

definition Infof_v3 ::
  "(string \<Rightarrow> 'v list \<Rightarrow> string) \<Rightarrow> SnakeLogger_v3 \<Rightarrow> string \<Rightarrow> 'v list \<Rightarrow> GoTime
     \<Rightarrow> panic + LogData_v3 option" where
  "Infof_v3 sprintf s format v now = parseLog_v3 s InfoLevel (sprintf format v) now"

definition Warnf_v3 ::
  "(string \<Rightarrow> 'v list \<Rightarrow> string) \<Rightarrow> SnakeLogger_v3 \<Rightarrow> string \<Rightarrow> 'v list \<Rightarrow> GoTime
     \<Rightarrow> panic + LogData_v3 option" where
  "Warnf_v3 sprintf s format v now = parseLog_v3 s WarnLevel (sprintf format v) now"

definition Errorf_v3 ::
  "(string \<Rightarrow> 'v list \<Rightarrow> string) \<Rightarrow> SnakeLogger_v3 \<Rightarrow> string \<Rightarrow> 'v list \<Rightarrow> GoTime
     \<Rightarrow> panic + LogData_v3 option" where
  "Errorf_v3 sprintf s format v now = parseLog_v3 s ErrorLevel (sprintf format v) now"

definition Reportf_v3 ::
  "(string \<Rightarrow> 'v list \<Rightarrow> string) \<Rightarrow> SnakeLogger_v3 \<Rightarrow> string \<Rightarrow> 'v list \<Rightarrow> GoTime
     \<Rightarrow> panic + LogData_v3 option" where
  "Reportf_v3 sprintf s format v now = parseLog_v3 s ReportLevel (sprintf format v) now"

definition Debug_v3 :: "SnakeLogger_v3 \<Rightarrow> string \<Rightarrow> GoTime \<Rightarrow> panic + LogData_v3 option" where
  "Debug_v3 s m now = parseLog_v3 s DebugLevel m now"

definition Info_v3 :: "SnakeLogger_v3 \<Rightarrow> string \<Rightarrow> GoTime \<Rightarrow> panic + LogData_v3 option" where
  "Info_v3 s m now = parseLog_v3 s InfoLevel m now"

definition Warn_v3 :: "SnakeLogger_v3 \<Rightarrow> string \<Rightarrow> GoTime \<Rightarrow> panic + LogData_v3 option" where
  "Warn_v3 s m now = parseLog_v3 s WarnLevel m now"

definition Error_v3 :: "SnakeLogger_v3 \<Rightarrow> string \<Rightarrow> GoTime \<Rightarrow> panic + LogData_v3 option" where
  "Error_v3 s m now = parseLog_v3 s ErrorLevel m now"

definition Report_v3 :: "SnakeLogger_v3 \<Rightarrow> string \<Rightarrow> GoTime \<Rightarrow> panic + LogData_v3 option" where
  "Report_v3 s m now = parseLog_v3 s ReportLevel m now"

definition NewLogger_v3 ::
  "string \<Rightarrow> uint64 \<Rightarrow> (SnakeLoggerLevel \<times> string) list \<Rightarrow> SnakeLogger_v3" where
  "NewLogger_v3 lvname index ord =
     NewLogger_loop lvname ord
       \<lparr>level = InfoLevel, isNull = False, id_field = [], currentFunc = [], currentTurn = 0,
        name = []\<rparr>"

definition String_v3 :: "LogData_v3 \<Rightarrow> string" where
  "String_v3 l =
     Sprintf ''%s %s (%v) <%s> [%s] %s \<newline>''
       [ArgString (Timestamp l), ArgString (LogData_v2.ID l), ArgInt (Turn l),
        ArgString (Function l), ArgString (LogData_v2.Sev l), ArgString (LogData_v2.Msg l)]"

definition Bytes_v3 :: "LogData_v3 \<Rightarrow> string" where
  "Bytes_v3 l = String_v3 l"

definition writeToFile_v3_iter ::
  "string \<Rightarrow> LogData_v3 \<Rightarrow> FileOps \<Rightarrow> World \<Rightarrow> LoopStep \<times> World" where
  "writeToFile_v3_iter basedir m ops w =
     (let filename = (if SnakeName m = [] then basedir @ ''generic.log''
                      else Sprintf ''%s/%s.log'' [ArgString basedir, ArgString (SnakeName m)])
      in case open_err ops of
           Some e \<Rightarrow> (Fatal e, w)
         | None \<Rightarrow>
             (let w1 = OpenFile w filename
              in case write_err ops of
                   Some e \<Rightarrow> (Break, Println w1 e)
                 | None \<Rightarrow>
                     (let w2 = Write w1 filename (Bytes_v3 m)
                      in case close_err ops of
                           Some e \<Rightarrow> (Continue, Println w2 e)
                         | None \<Rightarrow> (Continue, w2))))"

fun writeToFile_v3_loop ::
  "string \<Rightarrow> (LogData_v3 \<times> FileOps) list \<Rightarrow> World \<Rightarrow> Outcome \<times> World" where
  "writeToFile_v3_loop basedir [] w = (Blocked, w)"
| "writeToFile_v3_loop basedir ((m, ops) # c) w =
     (case writeToFile_v3_iter basedir m ops w of
        (Continue, w') \<Rightarrow> writeToFile_v3_loop basedir c w'
      | (Break, w') \<Rightarrow> (Returned, w')
      | (Fatal e, w') \<Rightarrow> (Exited e, w'))"

definition writeToFile_v3 ::
  "Env \<Rightarrow> (LogData_v3 \<times> FileOps) list \<Rightarrow> World \<Rightarrow> Outcome \<times> World" where
  "writeToFile_v3 env c w =
     (let (dir, w1) = setup_dir env w;
          basedir = dir @ ''/battlesnakeLogs'';
          w2 = setup_mkdir env basedir w1
      in writeToFile_v3_loop basedir c w2)"

subsection \<open>Sample inputs\<close>

text \<open>Concrete values at which the theorems below are put to work.\<close>

definition noon :: GoTime where
  "noon = \<lparr>UnixNano = 1600000000000000000,
            Format = (\<lambda>layout. ''2020-09-13T12:26:40.000000000'')\<rparr>"

definition home_env :: Env where
  "home_env = \<lparr>HOME = ''/home/snake'', Mkdir = MkdirErrExist\<rparr>"

definition ops_ok :: FileOps where
  "ops_ok = \<lparr>open_err = None, write_err = None, close_err = None\<rparr>"

definition ops_open_fails :: FileOps where
  "ops_open_fails =
     \<lparr>open_err = Some ''permission denied'', write_err = None, close_err = None\<rparr>"

definition empty_world :: World where
  "empty_world = \<lparr>files = Map.empty, stdout = []\<rparr>"

definition abc_record_v1 :: LogData_v1 where
  "abc_record_v1 =
     \<lparr>LogData_v1.ID = ''abc'', LogData_v1.Sev = ''info'', LogData_v1.Msg = ''boom'',
      Time = 1600000000000000000\<rparr>"

definition abc_record_v2 :: LogData_v2 where
  "abc_record_v2 =
     \<lparr>ID = ''abc'', Sev = ''info'', Msg = ''boom'',
      Timestamp = ''2020-09-13T12:26:40.000000000'', UnixTimeStamp = 1600000000000000000,
      Turn = 3, Function = ''move''\<rparr>"

definition generic_record_v2 :: LogData_v2 where
  "generic_record_v2 =
     \<lparr>ID = [], Sev = ''error'', Msg = ''bang'',
      Timestamp = ''2020-09-13T12:26:41.000000000'', UnixTimeStamp = 1600000001000000000,
      Turn = 0, Function = []\<rparr>"

definition nameless_record_v3 :: LogData_v3 where
  "nameless_record_v3 =
     \<lparr>ID = ''abc'', Sev = ''info'', Msg = ''boom'',
      Timestamp = ''2020-09-13T12:26:40.000000000'', UnixTimeStamp = 1600000000000000000,
      Turn = 3, Function = ''move'', SnakeName = []\<rparr>"

section \<open>Auxiliary facts\<close>

lemmas level_defs = DebugLevel_def InfoLevel_def WarnLevel_def ErrorLevel_def
  NullLevel_v2_def ReportLevel_def NullLevel_v3_def

lemmas sample_defs = home_env_def ops_ok_def ops_open_fails_def empty_world_def
  abc_record_v1_def abc_record_v2_def generic_record_v2_def nameless_record_v3_def

lemmas run_defs = setup_dir_def setup_mkdir_def OpenFile_def Write_def content_def
  Println_def Let_def

subsection \<open>The file system\<close>

lemma files_Println [simp]: "files (Println w line) = files w"
  by (simp add: Println_def)

lemma content_Println [simp]: "content (Println w line) path = content w path"
  by (simp add: content_def)

lemma files_OpenFile_Write:
  "files (Write (OpenFile w path) path bytes) = (files w)(path \<mapsto> content w path @ bytes)"
  by (simp add: Write_def OpenFile_def content_def)

subsection \<open>The text sink of \<open>_v1\<close>\<close>

lemma writeToFile_v1_iter_open_fails:
  "open_err ops = Some e \<Longrightarrow> writeToFile_v1_iter basedir m ops w = (Fatal e, w)"
  by (simp add: writeToFile_v1_iter_def Let_def)

lemma writeToFile_v1_iter_written:
  assumes "open_err ops = None" and "write_err ops = None"
  shows "fst (writeToFile_v1_iter basedir m ops w) = Continue"
    and "files (snd (writeToFile_v1_iter basedir m ops w)) =
           (let path = (if LogData_v1.ID m = [] then basedir @ ''/generic.log'' else basedir @ ''/game-'' @ LogData_v1.ID m @ ''.log'')
            in (files w)(path \<mapsto> content w path @ Bytes_v1 m))"
  using assms
  by (auto simp: writeToFile_v1_iter_def Let_def files_OpenFile_Write split: option.splits)

lemma writeToFile_v1_loop_append:
  "writeToFile_v1_loop basedir (xs @ ys) w =
     (case writeToFile_v1_loop basedir xs w of
        (Blocked, w') \<Rightarrow> writeToFile_v1_loop basedir ys w'
      | r \<Rightarrow> r)"
proof (induction xs arbitrary: w)
  case Nil
  then show ?case by simp
next
  case (Cons x xs)
  obtain m ops where x: "x = (m, ops)" by (cases x)
  obtain st w' where it: "writeToFile_v1_iter basedir m ops w = (st, w')"
    by (cases "writeToFile_v1_iter basedir m ops w")
  show ?case
    by (cases st) (simp_all add: x it Cons.IH)
qed

lemma writeToFile_v1_loop_after_Blocked:
  assumes "fst (writeToFile_v1_loop basedir pre w) = Blocked"
  shows "writeToFile_v1_loop basedir (pre @ c) w =
           writeToFile_v1_loop basedir c (snd (writeToFile_v1_loop basedir pre w))"
  using assms
  by (cases "writeToFile_v1_loop basedir pre w") (simp add: writeToFile_v1_loop_append)

lemma writeToFile_v1_unfold:
  "writeToFile_v1 env c w =
     writeToFile_v1_loop (fst (setup_dir env w) @ ''/battlesnakeLogs'') c
       (setup_mkdir env (fst (setup_dir env w) @ ''/battlesnakeLogs'') (snd (setup_dir env w)))"
  by (simp add: writeToFile_v1_def Let_def split_def)

lemma writeToFile_v1_open_failure:
  assumes "fst (writeToFile_v1 env pre w) = Blocked" and "open_err ops = Some e"
  shows "writeToFile_v1 env (pre @ (m, ops) # c) w =
           (Exited e, snd (writeToFile_v1 env pre w))"
  using assms
  by (simp add: writeToFile_v1_unfold writeToFile_v1_loop_after_Blocked
      writeToFile_v1_iter_open_fails)

lemma writeToFile_v1_appends:
  assumes "fst (writeToFile_v1 env pre w) = Blocked"
    and "open_err ops = None" and "write_err ops = None"
  shows "fst (writeToFile_v1 env (pre @ [(m, ops)]) w) = Blocked"
    and "files (snd (writeToFile_v1 env (pre @ [(m, ops)]) w)) =
           (let w' = snd (writeToFile_v1 env pre w);
                basedir = fst (setup_dir env w) @ ''/battlesnakeLogs'';
                path = (if LogData_v1.ID m = [] then basedir @ ''/generic.log'' else basedir @ ''/game-'' @ LogData_v1.ID m @ ''.log'')
            in (files w')(path \<mapsto> content w' path @ Bytes_v1 m))"
proof -
  let ?b = "fst (setup_dir env w) @ ''/battlesnakeLogs''"
  let ?w' = "snd (writeToFile_v1 env pre w)"
  obtain st w'' where it: "writeToFile_v1_iter ?b m ops ?w' = (st, w'')"
    by (cases "writeToFile_v1_iter ?b m ops ?w'")
  from writeToFile_v1_iter_written [OF assms(2,3), of ?b m ?w'] it
  have st: "st = Continue"
    and fl: "files w'' =
               (let path = (if LogData_v1.ID m = [] then ?b @ ''/generic.log'' else ?b @ ''/game-'' @ LogData_v1.ID m @ ''.log'')
                in (files ?w')(path \<mapsto> content ?w' path @ Bytes_v1 m))"
    by simp_all
  have run: "writeToFile_v1 env (pre @ [(m, ops)]) w = (Blocked, w'')"
    using assms(1) it st
    by (simp add: writeToFile_v1_unfold writeToFile_v1_loop_after_Blocked)
  show "fst (writeToFile_v1 env (pre @ [(m, ops)]) w) = Blocked"
    using run by simp
  show "files (snd (writeToFile_v1 env (pre @ [(m, ops)]) w)) =
           (let w' = snd (writeToFile_v1 env pre w);
                basedir = fst (setup_dir env w) @ ''/battlesnakeLogs'';
                path = (if LogData_v1.ID m = [] then basedir @ ''/generic.log'' else basedir @ ''/game-'' @ LogData_v1.ID m @ ''.log'')
            in (files w')(path \<mapsto> content w' path @ Bytes_v1 m))"
    using run fl by (simp add: Let_def)
qed

subsection \<open>The text sink of \<open>_v2\<close>\<close>

lemma writeToFile_v2_iter_open_fails:
  "open_err ops = Some e \<Longrightarrow> writeToFile_v2_iter basedir m ops w = (Fatal e, w)"
  by (simp add: writeToFile_v2_iter_def Let_def)

lemma writeToFile_v2_iter_written:
  assumes "open_err ops = None" and "write_err ops = None"
  shows "fst (writeToFile_v2_iter basedir m ops w) = Continue"
    and "files (snd (writeToFile_v2_iter basedir m ops w)) =
           (let path = (if LogData_v2.ID m = [] then basedir @ ''/generic.log'' else basedir @ ''/game-'' @ LogData_v2.ID m @ ''.log'')
            in (files w)(path \<mapsto> content w path @ Bytes_v2 m))"
  using assms
  by (auto simp: writeToFile_v2_iter_def Let_def files_OpenFile_Write split: option.splits)

lemma writeToFile_v2_loop_append:
  "writeToFile_v2_loop basedir (xs @ ys) w =
     (case writeToFile_v2_loop basedir xs w of
        (Blocked, w') \<Rightarrow> writeToFile_v2_loop basedir ys w'
      | r \<Rightarrow> r)"
proof (induction xs arbitrary: w)
  case Nil
  then show ?case by simp
next
  case (Cons x xs)
  obtain m ops where x: "x = (m, ops)" by (cases x)
  obtain st w' where it: "writeToFile_v2_iter basedir m ops w = (st, w')"
    by (cases "writeToFile_v2_iter basedir m ops w")
  show ?case
    by (cases st) (simp_all add: x it Cons.IH)
qed

lemma writeToFile_v2_loop_after_Blocked:
  assumes "fst (writeToFile_v2_loop basedir pre w) = Blocked"
  shows "writeToFile_v2_loop basedir (pre @ c) w =
           writeToFile_v2_loop basedir c (snd (writeToFile_v2_loop basedir pre w))"
  using assms
  by (cases "writeToFile_v2_loop basedir pre w") (simp add: writeToFile_v2_loop_append)

lemma writeToFile_v2_unfold:
  "writeToFile_v2 env c w =
     writeToFile_v2_loop (fst (setup_dir env w) @ ''/battlesnakeLogs'') c
       (setup_mkdir env (fst (setup_dir env w) @ ''/battlesnakeLogs'') (snd (setup_dir env w)))"
  by (simp add: writeToFile_v2_def Let_def split_def)

lemma writeToFile_v2_open_failure:
  assumes "fst (writeToFile_v2 env pre w) = Blocked" and "open_err ops = Some e"
  shows "writeToFile_v2 env (pre @ (m, ops) # c) w =
           (Exited e, snd (writeToFile_v2 env pre w))"
  using assms
  by (simp add: writeToFile_v2_unfold writeToFile_v2_loop_after_Blocked
      writeToFile_v2_iter_open_fails)

lemma writeToFile_v2_appends:
  assumes "fst (writeToFile_v2 env pre w) = Blocked"
    and "open_err ops = None" and "write_err ops = None"
  shows "fst (writeToFile_v2 env (pre @ [(m, ops)]) w) = Blocked"
    and "files (snd (writeToFile_v2 env (pre @ [(m, ops)]) w)) =
           (let w' = snd (writeToFile_v2 env pre w);
                basedir = fst (setup_dir env w) @ ''/battlesnakeLogs'';
                path = (if LogData_v2.ID m = [] then basedir @ ''/generic.log'' else basedir @ ''/game-'' @ LogData_v2.ID m @ ''.log'')
            in (files w')(path \<mapsto> content w' path @ Bytes_v2 m))"
proof -
  let ?b = "fst (setup_dir env w) @ ''/battlesnakeLogs''"
  let ?w' = "snd (writeToFile_v2 env pre w)"
  obtain st w'' where it: "writeToFile_v2_iter ?b m ops ?w' = (st, w'')"
    by (cases "writeToFile_v2_iter ?b m ops ?w'")
  from writeToFile_v2_iter_written [OF assms(2,3), of ?b m ?w'] it
  have st: "st = Continue"
    and fl: "files w'' =
               (let path = (if LogData_v2.ID m = [] then ?b @ ''/generic.log'' else ?b @ ''/game-'' @ LogData_v2.ID m @ ''.log'')
                in (files ?w')(path \<mapsto> content ?w' path @ Bytes_v2 m))"
    by simp_all
  have run: "writeToFile_v2 env (pre @ [(m, ops)]) w = (Blocked, w'')"
    using assms(1) it st
    by (simp add: writeToFile_v2_unfold writeToFile_v2_loop_after_Blocked)
  show "fst (writeToFile_v2 env (pre @ [(m, ops)]) w) = Blocked"
    using run by simp
  show "files (snd (writeToFile_v2 env (pre @ [(m, ops)]) w)) =
           (let w' = snd (writeToFile_v2 env pre w);
                basedir = fst (setup_dir env w) @ ''/battlesnakeLogs'';
                path = (if LogData_v2.ID m = [] then basedir @ ''/generic.log'' else basedir @ ''/game-'' @ LogData_v2.ID m @ ''.log'')
            in (files w')(path \<mapsto> content w' path @ Bytes_v2 m))"
    using run fl by (simp add: Let_def)
qed

subsection \<open>The text sink of \<open>_v3\<close>\<close>

lemma writeToFile_v3_iter_open_fails:
  "open_err ops = Some e \<Longrightarrow> writeToFile_v3_iter basedir m ops w = (Fatal e, w)"
  by (simp add: writeToFile_v3_iter_def Let_def)

lemma writeToFile_v3_iter_written:
  assumes "open_err ops = None" and "write_err ops = None"
  shows "fst (writeToFile_v3_iter basedir m ops w) = Continue"
    and "files (snd (writeToFile_v3_iter basedir m ops w)) =
           (let path = (if SnakeName m = [] then basedir @ ''generic.log'' else Sprintf ''%s/%s.log'' [ArgString basedir, ArgString (SnakeName m)])
            in (files w)(path \<mapsto> content w path @ Bytes_v3 m))"
  using assms
  by (auto simp: writeToFile_v3_iter_def Let_def files_OpenFile_Write split: option.splits)

lemma writeToFile_v3_loop_append:
  "writeToFile_v3_loop basedir (xs @ ys) w =
     (case writeToFile_v3_loop basedir xs w of
        (Blocked, w') \<Rightarrow> writeToFile_v3_loop basedir ys w'
      | r \<Rightarrow> r)"
proof (induction xs arbitrary: w)
  case Nil
  then show ?case by simp
next
  case (Cons x xs)
  obtain m ops where x: "x = (m, ops)" by (cases x)
  obtain st w' where it: "writeToFile_v3_iter basedir m ops w = (st, w')"
    by (cases "writeToFile_v3_iter basedir m ops w")
  show ?case
    by (cases st) (simp_all add: x it Cons.IH)
qed

lemma writeToFile_v3_loop_after_Blocked:
  assumes "fst (writeToFile_v3_loop basedir pre w) = Blocked"
  shows "writeToFile_v3_loop basedir (pre @ c) w =
           writeToFile_v3_loop basedir c (snd (writeToFile_v3_loop basedir pre w))"
  using assms
  by (cases "writeToFile_v3_loop basedir pre w") (simp add: writeToFile_v3_loop_append)

lemma writeToFile_v3_unfold:
  "writeToFile_v3 env c w =
     writeToFile_v3_loop (fst (setup_dir env w) @ ''/battlesnakeLogs'') c
       (setup_mkdir env (fst (setup_dir env w) @ ''/battlesnakeLogs'') (snd (setup_dir env w)))"
  by (simp add: writeToFile_v3_def Let_def split_def)

lemma writeToFile_v3_open_failure:
  assumes "fst (writeToFile_v3 env pre w) = Blocked" and "open_err ops = Some e"
  shows "writeToFile_v3 env (pre @ (m, ops) # c) w =
           (Exited e, snd (writeToFile_v3 env pre w))"
  using assms
  by (simp add: writeToFile_v3_unfold writeToFile_v3_loop_after_Blocked
      writeToFile_v3_iter_open_fails)

lemma writeToFile_v3_appends:
  assumes "fst (writeToFile_v3 env pre w) = Blocked"
    and "open_err ops = None" and "write_err ops = None"
  shows "fst (writeToFile_v3 env (pre @ [(m, ops)]) w) = Blocked"
    and "files (snd (writeToFile_v3 env (pre @ [(m, ops)]) w)) =
           (let w' = snd (writeToFile_v3 env pre w);
                basedir = fst (setup_dir env w) @ ''/battlesnakeLogs'';
                path = (if SnakeName m = [] then basedir @ ''generic.log'' else Sprintf ''%s/%s.log'' [ArgString basedir, ArgString (SnakeName m)])
            in (files w')(path \<mapsto> content w' path @ Bytes_v3 m))"
proof -
  let ?b = "fst (setup_dir env w) @ ''/battlesnakeLogs''"
  let ?w' = "snd (writeToFile_v3 env pre w)"
  obtain st w'' where it: "writeToFile_v3_iter ?b m ops ?w' = (st, w'')"
    by (cases "writeToFile_v3_iter ?b m ops ?w'")
  from writeToFile_v3_iter_written [OF assms(2,3), of ?b m ?w'] it
  have st: "st = Continue"
    and fl: "files w'' =
               (let path = (if SnakeName m = [] then ?b @ ''generic.log'' else Sprintf ''%s/%s.log'' [ArgString ?b, ArgString (SnakeName m)])
                in (files ?w')(path \<mapsto> content ?w' path @ Bytes_v3 m))"
    by simp_all
  have run: "writeToFile_v3 env (pre @ [(m, ops)]) w = (Blocked, w'')"
    using assms(1) it st
    by (simp add: writeToFile_v3_unfold writeToFile_v3_loop_after_Blocked)
  show "fst (writeToFile_v3 env (pre @ [(m, ops)]) w) = Blocked"
    using run by simp
  show "files (snd (writeToFile_v3 env (pre @ [(m, ops)]) w)) =
           (let w' = snd (writeToFile_v3 env pre w);
                basedir = fst (setup_dir env w) @ ''/battlesnakeLogs'';
                path = (if SnakeName m = [] then basedir @ ''generic.log'' else Sprintf ''%s/%s.log'' [ArgString basedir, ArgString (SnakeName m)])
            in (files w')(path \<mapsto> content w' path @ Bytes_v3 m))"
    using run fl by (simp add: Let_def)
qed

subsection \<open>The JSON sink\<close>

lemma json_Marshal_shape:
  "\<exists>body. json_Marshal quote m = Inr (CHR ''{'' # body @ ''}'')"
  by (simp add: json_Marshal_def)

lemma writeJSONToFile_iter_open_fails:
  "open_err ops = Some e \<Longrightarrow>
     writeJSONToFile_iter quote filename m ops w = (Break, Println w e)"
  by (simp add: writeJSONToFile_iter_def json_Marshal_def Let_def)

lemma writeJSONToFile_iter_written:
  assumes "open_err ops = None" and "write_err ops = None"
    and "json_Marshal quote m = Inr obj"
  shows "fst (writeJSONToFile_iter quote filename m ops w) = Continue"
    and "files (snd (writeJSONToFile_iter quote filename m ops w)) =
           (files w)(filename \<mapsto> content w filename @ obj)"
  using assms
  by (auto simp: writeJSONToFile_iter_def Let_def files_OpenFile_Write split: option.splits)

lemma writeJSONToFile_loop_append:
  "writeJSONToFile_loop quote filename (xs @ ys) w =
     (case writeJSONToFile_loop quote filename xs w of
        (Blocked, w') \<Rightarrow> writeJSONToFile_loop quote filename ys w'
      | r \<Rightarrow> r)"
proof (induction xs arbitrary: w)
  case Nil
  then show ?case by simp
next
  case (Cons x xs)
  obtain m ops where x: "x = (m, ops)" by (cases x)
  obtain st w' where it: "writeJSONToFile_iter quote filename m ops w = (st, w')"
    by (cases "writeJSONToFile_iter quote filename m ops w")
  show ?case
    by (cases st) (simp_all add: x it Cons.IH)
qed

lemma writeJSONToFile_loop_after_Blocked:
  assumes "fst (writeJSONToFile_loop quote filename pre w) = Blocked"
  shows "writeJSONToFile_loop quote filename (pre @ c) w =
           writeJSONToFile_loop quote filename c
             (snd (writeJSONToFile_loop quote filename pre w))"
  using assms
  by (cases "writeJSONToFile_loop quote filename pre w")
     (simp add: writeJSONToFile_loop_append)

lemma writeJSONToFile_unfold:
  "writeJSONToFile quote env c w =
     writeJSONToFile_loop quote (fst (setup_dir env w) @ ''/battlesnakeJSON/battlesnake.json'') c
       (setup_mkdir env (fst (setup_dir env w) @ ''/battlesnakeJSON'') (snd (setup_dir env w)))"
  by (simp add: writeJSONToFile_def Let_def split_def)

lemma writeJSONToFile_open_failure:
  assumes "fst (writeJSONToFile quote env pre w) = Blocked" and "open_err ops = Some e"
  shows "writeJSONToFile quote env (pre @ (m, ops) # c) w =
           (Returned, Println (snd (writeJSONToFile quote env pre w)) e)"
  using assms
  by (simp add: writeJSONToFile_unfold writeJSONToFile_loop_after_Blocked
      writeJSONToFile_iter_open_fails)

lemma writeJSONToFile_appends:
  assumes "fst (writeJSONToFile quote env pre w) = Blocked"
    and "open_err ops = None" and "write_err ops = None"
    and "json_Marshal quote m = Inr obj"
  shows "fst (writeJSONToFile quote env (pre @ [(m, ops)]) w) = Blocked"
    and "files (snd (writeJSONToFile quote env (pre @ [(m, ops)]) w)) =
           (let w' = snd (writeJSONToFile quote env pre w);
                filename = fst (setup_dir env w) @ ''/battlesnakeJSON/battlesnake.json''
            in (files w')(filename \<mapsto> content w' filename @ obj))"
proof -
  let ?f = "fst (setup_dir env w) @ ''/battlesnakeJSON/battlesnake.json''"
  let ?w' = "snd (writeJSONToFile quote env pre w)"
  obtain st w'' where it: "writeJSONToFile_iter quote ?f m ops ?w' = (st, w'')"
    by (cases "writeJSONToFile_iter quote ?f m ops ?w'")
  from writeJSONToFile_iter_written [OF assms(2,3,4), of ?f ?w'] it
  have st: "st = Continue"
    and fl: "files w'' = (files ?w')(?f \<mapsto> content ?w' ?f @ obj)"
    by simp_all
  have run: "writeJSONToFile quote env (pre @ [(m, ops)]) w = (Blocked, w'')"
    using assms(1) it st
    by (simp add: writeJSONToFile_unfold writeJSONToFile_loop_after_Blocked)
  show "fst (writeJSONToFile quote env (pre @ [(m, ops)]) w) = Blocked"
    using run by simp
  show "files (snd (writeJSONToFile quote env (pre @ [(m, ops)]) w)) =
           (let w' = snd (writeJSONToFile quote env pre w);
                filename = fst (setup_dir env w) @ ''/battlesnakeJSON/battlesnake.json''
            in (files w')(filename \<mapsto> content w' filename @ obj))"
    using run fl by (simp add: Let_def)
qed

subsection \<open>The loop of \<^verbatim>\<open>NewLogger\<close>\<close>

lemma NewLogger_loop_found:
  "(l, v) \<in> set ord \<Longrightarrow> \<forall>p\<in>set ord. snd p = v \<longrightarrow> fst p = l \<Longrightarrow>
     NewLogger_loop v ord s = s\<lparr>level := l\<rparr>"
proof (induction ord)
  case Nil
  then show ?case by simp
next
  case (Cons x ord)
  obtain l0 v0 where x: "x = (l0, v0)" by (cases x)
  show ?case
  proof (cases "v0 = v")
    case True
    from Cons.prems(2) have "snd x = v \<longrightarrow> fst x = l" by simp
    with True x have "l0 = l" by simp
    with True x show ?thesis by simp
  next
    case False
    from Cons.prems(1) False x have "(l, v) \<in> set ord" by auto
    moreover from Cons.prems(2) have "\<forall>p\<in>set ord. snd p = v \<longrightarrow> fst p = l" by simp
    ultimately have "NewLogger_loop v ord s = s\<lparr>level := l\<rparr>" by (rule Cons.IH)
    with False x show ?thesis by simp
  qed
qed


lemma NewLogger_loop_absent:
  "v \<notin> snd ` set ord \<Longrightarrow> NewLogger_loop v ord s = s"
  by (induction ord) auto

lemma NewLogger_loop_v3:
  assumes "set ord = set levelMap_v3"
  shows "NewLogger_loop lvname ord s =
           (if lvname = ''debug'' then s\<lparr>level := DebugLevel\<rparr>
            else if lvname = ''info'' then s\<lparr>level := InfoLevel\<rparr>
            else if lvname = ''warn'' then s\<lparr>level := WarnLevel\<rparr>
            else if lvname = ''error'' then s\<lparr>level := ErrorLevel\<rparr>
            else if lvname = ''null'' then s\<lparr>level := NullLevel_v3\<rparr>
            else if lvname = ''report'' then s\<lparr>level := ReportLevel\<rparr>
            else s)"
proof -
  have d: "NewLogger_loop ''debug'' ord s = s\<lparr>level := DebugLevel\<rparr>"
    by (rule NewLogger_loop_found) (simp_all add: assms levelMap_v3_def)
  have i: "NewLogger_loop ''info'' ord s = s\<lparr>level := InfoLevel\<rparr>"
    by (rule NewLogger_loop_found) (simp_all add: assms levelMap_v3_def)
  have w: "NewLogger_loop ''warn'' ord s = s\<lparr>level := WarnLevel\<rparr>"
    by (rule NewLogger_loop_found) (simp_all add: assms levelMap_v3_def)
  have e: "NewLogger_loop ''error'' ord s = s\<lparr>level := ErrorLevel\<rparr>"
    by (rule NewLogger_loop_found) (simp_all add: assms levelMap_v3_def)
  have n: "NewLogger_loop ''null'' ord s = s\<lparr>level := NullLevel_v3\<rparr>"
    by (rule NewLogger_loop_found) (simp_all add: assms levelMap_v3_def)
  have r: "NewLogger_loop ''report'' ord s = s\<lparr>level := ReportLevel\<rparr>"
    by (rule NewLogger_loop_found) (simp_all add: assms levelMap_v3_def)
  have a: "NewLogger_loop v ord s = s"
    if "v \<noteq> ''debug''" "v \<noteq> ''info''" "v \<noteq> ''warn''" "v \<noteq> ''error''" "v \<noteq> ''null''"
      "v \<noteq> ''report''" for v
    using that by (intro NewLogger_loop_absent) (simp add: assms levelMap_v3_def)
  show ?thesis
    using d i w e n r a by simp
qed

lemma NewLogger_loop_v2:
  assumes "set ord = set levelMap_v2"
  shows "NewLogger_loop lvname ord s =
           (if lvname = ''debug'' then s\<lparr>level := DebugLevel\<rparr>
            else if lvname = ''info'' then s\<lparr>level := InfoLevel\<rparr>
            else if lvname = ''warn'' then s\<lparr>level := WarnLevel\<rparr>
            else if lvname = ''error'' then s\<lparr>level := ErrorLevel\<rparr>
            else if lvname = ''null'' then s\<lparr>level := NullLevel_v2\<rparr>
            else s)"
proof -
  have d: "NewLogger_loop ''debug'' ord s = s\<lparr>level := DebugLevel\<rparr>"
    by (rule NewLogger_loop_found) (simp_all add: assms levelMap_v2_def)
  have i: "NewLogger_loop ''info'' ord s = s\<lparr>level := InfoLevel\<rparr>"
    by (rule NewLogger_loop_found) (simp_all add: assms levelMap_v2_def)
  have w: "NewLogger_loop ''warn'' ord s = s\<lparr>level := WarnLevel\<rparr>"
    by (rule NewLogger_loop_found) (simp_all add: assms levelMap_v2_def)
  have e: "NewLogger_loop ''error'' ord s = s\<lparr>level := ErrorLevel\<rparr>"
    by (rule NewLogger_loop_found) (simp_all add: assms levelMap_v2_def)
  have n: "NewLogger_loop ''null'' ord s = s\<lparr>level := NullLevel_v2\<rparr>"
    by (rule NewLogger_loop_found) (simp_all add: assms levelMap_v2_def)
  have a: "NewLogger_loop v ord s = s"
    if "v \<noteq> ''debug''" "v \<noteq> ''info''" "v \<noteq> ''warn''" "v \<noteq> ''error''" "v \<noteq> ''null''" for v
    using that by (intro NewLogger_loop_absent) (simp add: assms levelMap_v2_def)
  show ?thesis
    using d i w e n a by simp
qed

subsection \<open>\<^verbatim>\<open>parseLog\<close> in closed form\<close>

lemma HasPrefix_GENERIC_short:
  "HasPrefix msg ''GENERIC'' \<and> length msg < 8 \<longleftrightarrow> msg = ''GENERIC''"
proof
  assume h: "HasPrefix msg ''GENERIC'' \<and> length msg < 8"
  then have "length msg = 7" by (simp add: HasPrefix_def)
  with h show "msg = ''GENERIC''" by (simp add: HasPrefix_def)
next
  assume "msg = ''GENERIC''"
  then show "HasPrefix msg ''GENERIC'' \<and> length msg < 8" by (simp add: HasPrefix_def)
qed

lemma slice_from_GENERIC:
  "HasPrefix msg ''GENERIC'' \<Longrightarrow>
     slice_from msg 8 =
       (if msg = ''GENERIC'' then Inl (SliceBoundsOutOfRange 8 7) else Inr (drop 8 msg))"
  using HasPrefix_GENERIC_short [of msg] by (auto simp: slice_from_def)

lemma parseLog_v3_unfold:
  "parseLog_v3 s lv msg t =
     (if lv < level s then Inr None
      else if msg = ''GENERIC'' then Inl (SliceBoundsOutOfRange 8 7)
      else Inr (Some \<lparr>ID = (if HasPrefix msg ''GENERIC'' then [] else id_field s),
                       Sev = map_index levelMap_v3 lv,
                       Msg = (if HasPrefix msg ''GENERIC'' then drop 8 msg else msg),
                       Timestamp = Format t ''2006-01-02T15:04:05.000000000'',
                       UnixTimeStamp = UnixNano t, Turn = currentTurn s,
                       Function = currentFunc s, SnakeName = name s\<rparr>))"
proof (cases "HasPrefix msg ''GENERIC''")
  case True
  then show ?thesis
    by (simp add: parseLog_v3_def Let_def slice_from_GENERIC)
next
  case False
  then have "msg \<noteq> ''GENERIC''" using HasPrefix_GENERIC_short [of msg] by blast
  with False show ?thesis
    by (simp add: parseLog_v3_def Let_def)
qed

lemma parseLog_v2_unfold:
  "parseLog_v2 s lv msg t =
     (if lv < level s then Inr None
      else if msg = ''GENERIC'' then Inl (SliceBoundsOutOfRange 8 7)
      else Inr (Some \<lparr>ID = (if HasPrefix msg ''GENERIC'' then [] else id_field s),
                       Sev = map_index levelMap_v2 lv,
                       Msg = (if HasPrefix msg ''GENERIC'' then drop 8 msg else msg),
                       Timestamp = Format t ''2006-01-02T15:04:05.000000000'',
                       UnixTimeStamp = UnixNano t, Turn = currentTurn s,
                       Function = currentFunc s\<rparr>))"
proof (cases "HasPrefix msg ''GENERIC''")
  case True
  then show ?thesis
    by (simp add: parseLog_v2_def Let_def slice_from_GENERIC)
next
  case False
  then have "msg \<noteq> ''GENERIC''" using HasPrefix_GENERIC_short [of msg] by blast
  with False show ?thesis
    by (simp add: parseLog_v2_def Let_def)
qed

lemma parseLog_v3_sends_iff:
  "(\<exists>r. parseLog_v3 s lv msg t = Inr (Some r)) \<longleftrightarrow> level s \<le> lv \<and> msg \<noteq> ''GENERIC''"
  by (auto simp: parseLog_v3_unfold)

lemma parseLog_v2_sends_iff:
  "(\<exists>r. parseLog_v2 s lv msg t = Inr (Some r)) \<longleftrightarrow> level s \<le> lv \<and> msg \<noteq> ''GENERIC''"
  by (auto simp: parseLog_v2_unfold)

lemma parseLog_v3_panics_iff:
  "isl (parseLog_v3 s lv msg t) \<longleftrightarrow> level s \<le> lv \<and> msg = ''GENERIC''"
  by (auto simp: parseLog_v3_unfold)

lemma parseLog_v2_panics_iff:
  "isl (parseLog_v2 s lv msg t) \<longleftrightarrow> level s \<le> lv \<and> msg = ''GENERIC''"
  by (auto simp: parseLog_v2_unfold)

lemmas methods_v3 = Debug_v3_def Info_v3_def Warn_v3_def Error_v3_def Report_v3_def
  Debugf_v3_def Infof_v3_def Warnf_v3_def Errorf_v3_def Reportf_v3_def

lemmas methods_v2 = Debug_v2_def Info_v2_def Error_v2_def
  Debugf_v2_def Infof_v2_def Errorf_v2_def

lemma null_logger_is_silent_v3:
  assumes "level s = NullLevel_v3"
  shows "Debug_v3 s m now = Inr None" "Info_v3 s m now = Inr None"
    "Warn_v3 s m now = Inr None" "Error_v3 s m now = Inr None"
    "Report_v3 s m now = Inr None"
    "Debugf_v3 sprintf s format v now = Inr None" "Infof_v3 sprintf s format v now = Inr None"
    "Warnf_v3 sprintf s format v now = Inr None" "Errorf_v3 sprintf s format v now = Inr None"
    "Reportf_v3 sprintf s format v now = Inr None"
  using assms by (simp_all add: methods_v3 parseLog_v3_unfold level_defs)

lemma null_logger_is_silent_v2:
  assumes "level s = NullLevel_v2"
  shows "Debug_v2 s m now = Inr None" "Info_v2 s m now = Inr None"
    "Error_v2 s m now = Inr None"
    "Debugf_v2 sprintf s format v now = Inr None" "Infof_v2 sprintf s format v now = Inr None"
    "Errorf_v2 sprintf s format v now = Inr None"
  using assms by (simp_all add: methods_v2 parseLog_v2_unfold level_defs)

section \<open>The level filter and the GENERIC override\<close>

text \<open>
  C1. Every logging call whose severity is at or above the logger's threshold should
  send a record. The call \<^verbatim>\<open>Info("GENERIC")\<close> on a logger made by
  \<^verbatim>\<open>NewLogger("info", 0)\<close> is at the threshold, yet it sends nothing: the message has
  the seven characters of the prefix and no more, the slice \<^verbatim>\<open>msg[8:]\<close> is out of range,
  and the goroutine panics before the send. (For every other message the rule holds,
  \<open>parseLog_v3_sends_iff\<close>, and a logger at the null level is silent for every exported
  method, \<open>null_logger_is_silent_v3\<close>.)
\<close>

theorem call_at_threshold_with_bare_GENERIC_panics:
  "level (NewLogger_v3 ''info'' 0 levelMap_v3) \<le> InfoLevel
   \<and> Info_v3 (NewLogger_v3 ''info'' 0 levelMap_v3) ''GENERIC'' noon =
       Inl (SliceBoundsOutOfRange 8 7)
   \<and> level (NewLogger_v2 ''info'' 0 levelMap_v2) \<le> InfoLevel
   \<and> Info_v2 (NewLogger_v2 ''info'' 0 levelMap_v2) ''GENERIC'' noon =
       Inl (SliceBoundsOutOfRange 8 7)"
  by (simp add: NewLogger_v3_def NewLogger_v2_def NewLogger_loop_v3 NewLogger_loop_v2
      Info_v3_def Info_v2_def parseLog_v3_unfold parseLog_v2_unfold)

text \<open>
  C2. A message that begins with \<^verbatim>\<open>GENERIC\<close> and one more character, the separator,
  is either dropped by the level filter or sent as a record whose id is empty, whatever
  the id of the logger, and whose message is the original without its first 8
  characters, that is what follows the separator. \<^verbatim>\<open>parseLog\<close> is the body of every
  exported logging method, so this covers every logging call.
\<close>

theorem generic_prefix_forces_generic_routing:
  assumes "msg = ''GENERIC'' @ sep # rest"
  shows "parseLog_v2 s2 lv msg t =
           (if lv < level s2 then Inr None
            else Inr (Some \<lparr>ID = [], Sev = map_index levelMap_v2 lv, Msg = drop 8 msg,
                             Timestamp = Format t ''2006-01-02T15:04:05.000000000'',
                             UnixTimeStamp = UnixNano t, Turn = currentTurn s2,
                             Function = currentFunc s2\<rparr>))
         \<and> parseLog_v3 s3 lv msg t =
           (if lv < level s3 then Inr None
            else Inr (Some \<lparr>ID = [], Sev = map_index levelMap_v3 lv, Msg = drop 8 msg,
                             Timestamp = Format t ''2006-01-02T15:04:05.000000000'',
                             UnixTimeStamp = UnixNano t, Turn = currentTurn s3,
                             Function = currentFunc s3, SnakeName = name s3\<rparr>))
         \<and> drop 8 msg = rest"
proof -
  have p: "HasPrefix msg ''GENERIC''" and n: "msg \<noteq> ''GENERIC''"
    using assms by (simp_all add: HasPrefix_def)
  have d: "drop 8 msg = rest" using assms by simp
  show ?thesis
    using p n d by (simp add: parseLog_v2_unfold parseLog_v3_unfold)
qed

theorem generic_prefix_forces_generic_routing_witness:
  "''GENERIC hello'' = ''GENERIC'' @ CHR '' '' # ''hello''
   \<and> parseLog_v3 (UpdateName (UpdateID (NewLogger_v3 ''info'' 0 levelMap_v3) ''abc'') ''bob'')
       ErrorLevel ''GENERIC hello'' noon =
     Inr (Some \<lparr>ID = [], Sev = ''error'', Msg = ''hello'',
                 Timestamp = ''2020-09-13T12:26:40.000000000'',
                 UnixTimeStamp = 1600000000000000000, Turn = 0, Function = [],
                 SnakeName = ''bob''\<rparr>)
   \<and> id_field (UpdateName (UpdateID (NewLogger_v3 ''info'' 0 levelMap_v3) ''abc'') ''bob'') = ''abc''"
  using generic_prefix_forces_generic_routing
    [of "''GENERIC hello''" "CHR '' ''" "''hello''"
      "NewLogger_v2 ''info'' 0 levelMap_v2" ErrorLevel noon
      "UpdateName (UpdateID (NewLogger_v3 ''info'' 0 levelMap_v3) ''abc'') ''bob''"]
  by (simp add: NewLogger_v3_def NewLogger_v2_def NewLogger_loop_v3 NewLogger_loop_v2
      UpdateName_def UpdateID_def level_defs noon_def map_index_def levelMap_v3_def)

text \<open>
  C5, as the claim has it: a call at severity \<open>s1\<close> on a logger whose threshold is
  \<open>s2\<close> sends nothing whenever \<open>s1 \<le> s2\<close>. The test in \<^verbatim>\<open>parseLog\<close> is
  \<^verbatim>\<open>s.level > level\<close>, which does not stop a call at the threshold itself:
  \<^verbatim>\<open>Info("hello")\<close> on a logger made by \<^verbatim>\<open>NewLogger("info", 0)\<close> sends its record.
\<close>

theorem tie_is_not_suppressed:
  "InfoLevel \<le> level (NewLogger_v3 ''info'' 0 levelMap_v3)
   \<and> Info_v3 (NewLogger_v3 ''info'' 0 levelMap_v3) ''hello'' noon =
       Inr (Some \<lparr>ID = [], Sev = ''info'', Msg = ''hello'',
                   Timestamp = ''2020-09-13T12:26:40.000000000'',
                   UnixTimeStamp = 1600000000000000000, Turn = 0, Function = [],
                   SnakeName = []\<rparr>)
   \<and> InfoLevel \<le> level (NewLogger_v2 ''info'' 0 levelMap_v2)
   \<and> Info_v2 (NewLogger_v2 ''info'' 0 levelMap_v2) ''hello'' noon =
       Inr (Some \<lparr>ID = [], Sev = ''info'', Msg = ''hello'',
                   Timestamp = ''2020-09-13T12:26:40.000000000'',
                   UnixTimeStamp = 1600000000000000000, Turn = 0, Function = []\<rparr>)"
  by (simp add: NewLogger_v3_def NewLogger_v2_def NewLogger_loop_v3 NewLogger_loop_v2
      Info_v3_def Info_v2_def parseLog_v3_unfold parseLog_v2_unfold HasPrefix_def
      noon_def map_index_def levelMap_v3_def levelMap_v2_def level_defs)

text \<open>
  C5, amended: for all severities \<open>s1\<close> and \<open>s2\<close> with \<open>s1 < s2\<close>, a logger whose
  threshold is \<open>s2\<close> suppresses every call made at severity \<open>s1\<close>: \<^verbatim>\<open>parseLog\<close>
  returns at the threshold test and no record is built or sent.
\<close>

theorem below_threshold_is_suppressed:
  assumes "s1 < s2" and "level l2 = s2" and "level l3 = s2"
  shows "parseLog_v2 l2 s1 msg t = Inr None \<and> parseLog_v3 l3 s1 msg t = Inr None"
  using assms by (simp add: parseLog_v2_unfold parseLog_v3_unfold)

theorem below_threshold_is_suppressed_witness:
  "InfoLevel < WarnLevel
   \<and> level (NewLogger_v2 ''warn'' 0 levelMap_v2) = WarnLevel
   \<and> level (NewLogger_v3 ''warn'' 0 levelMap_v3) = WarnLevel
   \<and> parseLog_v2 (NewLogger_v2 ''warn'' 0 levelMap_v2) InfoLevel ''test'' noon = Inr None
   \<and> parseLog_v3 (NewLogger_v3 ''warn'' 0 levelMap_v3) InfoLevel ''test'' noon = Inr None"
proof -
  have a: "InfoLevel < WarnLevel" by (simp add: level_defs)
  have b: "level (NewLogger_v2 ''warn'' 0 levelMap_v2) = WarnLevel"
    by (simp add: NewLogger_v2_def NewLogger_loop_v2)
  have c: "level (NewLogger_v3 ''warn'' 0 levelMap_v3) = WarnLevel"
    by (simp add: NewLogger_v3_def NewLogger_loop_v3)
  show ?thesis
    using a b c below_threshold_is_suppressed [OF a b c, of "''test''" noon] by simp
qed

text \<open>
  C9. \<^verbatim>\<open>parseLog\<close> tests the seven characters \<^verbatim>\<open>GENERIC\<close> and then takes \<^verbatim>\<open>msg[8:]\<close>. It
  panics exactly when the call passes the level filter and the message has the prefix
  but fewer than 8 characters; the only such message is \<^verbatim>\<open>GENERIC\<close> itself, where the
  panic is the slice bound 8 against the length 7. So \<^verbatim>\<open>parseLog\<close> returns for every
  message that, when it has the prefix, has at least 8 characters.
\<close>

theorem bare_GENERIC_slice_panics:
  "(isl (parseLog_v2 s2 lv msg t) \<longleftrightarrow>
      level s2 \<le> lv \<and> HasPrefix msg ''GENERIC'' \<and> length msg < 8)
   \<and> (isl (parseLog_v3 s3 lv msg t) \<longleftrightarrow>
      level s3 \<le> lv \<and> HasPrefix msg ''GENERIC'' \<and> length msg < 8)
   \<and> (HasPrefix msg ''GENERIC'' \<and> length msg < 8 \<longleftrightarrow> msg = ''GENERIC'')
   \<and> (level s2 \<le> lv \<longrightarrow>
        parseLog_v2 s2 lv ''GENERIC'' t = Inl (SliceBoundsOutOfRange 8 7))
   \<and> (level s3 \<le> lv \<longrightarrow>
        parseLog_v3 s3 lv ''GENERIC'' t = Inl (SliceBoundsOutOfRange 8 7))"
  using HasPrefix_GENERIC_short [of msg]
  by (auto simp: parseLog_v2_unfold parseLog_v3_unfold)

theorem bare_GENERIC_slice_panics_witness:
  "level (NewLogger_v2 ''info'' 0 levelMap_v2) \<le> ErrorLevel
   \<and> level (NewLogger_v3 ''info'' 0 levelMap_v3) \<le> ErrorLevel
   \<and> parseLog_v2 (NewLogger_v2 ''info'' 0 levelMap_v2) ErrorLevel ''GENERIC'' noon =
       Inl (SliceBoundsOutOfRange 8 7)
   \<and> parseLog_v3 (NewLogger_v3 ''info'' 0 levelMap_v3) ErrorLevel ''GENERIC'' noon =
       Inl (SliceBoundsOutOfRange 8 7)
   \<and> isl (parseLog_v3 (NewLogger_v3 ''info'' 0 levelMap_v3) ErrorLevel ''GENERIC'' noon)
   \<and> \<not> isl (parseLog_v3 (NewLogger_v3 ''info'' 0 levelMap_v3) ErrorLevel ''GENERIC: x'' noon)
   \<and> \<not> isl (parseLog_v3 (NewLogger_v3 ''info'' 0 levelMap_v3) DebugLevel ''GENERIC'' noon)"
proof -
  have a: "level (NewLogger_v2 ''info'' 0 levelMap_v2) \<le> ErrorLevel"
    by (simp add: NewLogger_v2_def NewLogger_loop_v2 level_defs)
  have b: "level (NewLogger_v3 ''info'' 0 levelMap_v3) \<le> ErrorLevel"
    by (simp add: NewLogger_v3_def NewLogger_loop_v3 level_defs)
  have c: "\<not> level (NewLogger_v3 ''info'' 0 levelMap_v3) \<le> DebugLevel"
    by (simp add: NewLogger_v3_def NewLogger_loop_v3 level_defs)
  have d: "\<not> length ''GENERIC: x'' < 8" by simp
  have e: "HasPrefix ''GENERIC'' ''GENERIC'' \<and> length ''GENERIC'' < 8"
    by (simp add: HasPrefix_def)
  show ?thesis
    using a b c d e
      bare_GENERIC_slice_panics [of "NewLogger_v2 ''info'' 0 levelMap_v2" ErrorLevel
        "''GENERIC''" noon "NewLogger_v3 ''info'' 0 levelMap_v3"]
      bare_GENERIC_slice_panics [of "NewLogger_v2 ''info'' 0 levelMap_v2" ErrorLevel
        "''GENERIC: x''" noon "NewLogger_v3 ''info'' 0 levelMap_v3"]
      bare_GENERIC_slice_panics [of "NewLogger_v2 ''info'' 0 levelMap_v2" DebugLevel
        "''GENERIC''" noon "NewLogger_v3 ''info'' 0 levelMap_v3"]
    by blast
qed

section \<open>The constructor\<close>

text \<open>
  C10. \<^verbatim>\<open>NewLogger\<close> never reads its second parameter, and although the loop over
  \<^verbatim>\<open>levelMap\<close> runs in an order that changes from run to run, the names in the map are
  distinct, so the result depends on the level name alone: for any two indexes and any
  two orders of iteration the loggers are equal, with the level that bears the name
  (\<^verbatim>\<open>InfoLevel\<close> when no level does), an empty id and zero values elsewhere.
\<close>

theorem NewLogger_ignores_index:
  assumes "range_order levelMap_v2 o1" and "range_order levelMap_v2 o2"
    and "range_order levelMap_v3 p1" and "range_order levelMap_v3 p2"
  shows "NewLogger_v2 lvname i o1 = NewLogger_v2 lvname j o2
         \<and> NewLogger_v3 lvname i p1 = NewLogger_v3 lvname j p2
         \<and> NewLogger_v2 lvname i o1 =
             \<lparr>level = (if lvname = ''debug'' then DebugLevel
                        else if lvname = ''warn'' then WarnLevel
                        else if lvname = ''error'' then ErrorLevel
                        else if lvname = ''null'' then NullLevel_v2
                        else InfoLevel),
              isNull = False, id_field = [], currentFunc = [], currentTurn = 0\<rparr>
         \<and> NewLogger_v3 lvname i p1 =
             \<lparr>level = (if lvname = ''debug'' then DebugLevel
                        else if lvname = ''warn'' then WarnLevel
                        else if lvname = ''error'' then ErrorLevel
                        else if lvname = ''null'' then NullLevel_v3
                        else if lvname = ''report'' then ReportLevel
                        else InfoLevel),
              isNull = False, id_field = [], currentFunc = [], currentTurn = 0,
              name = []\<rparr>"
proof -
  from assms have s: "set o1 = set levelMap_v2" "set o2 = set levelMap_v2"
    "set p1 = set levelMap_v3" "set p2 = set levelMap_v3"
    by (simp_all add: range_order_def)
  show ?thesis
    by (simp add: NewLogger_v2_def NewLogger_v3_def NewLogger_loop_v2 [OF s(1)]
        NewLogger_loop_v2 [OF s(2)] NewLogger_loop_v3 [OF s(3)] NewLogger_loop_v3 [OF s(4)])
qed

theorem NewLogger_ignores_index_witness:
  "range_order levelMap_v2 levelMap_v2 \<and> range_order levelMap_v2 (rev levelMap_v2)
   \<and> range_order levelMap_v3 levelMap_v3 \<and> range_order levelMap_v3 (rev levelMap_v3)
   \<and> NewLogger_v2 ''warn'' 1 levelMap_v2 = NewLogger_v2 ''warn'' 2 (rev levelMap_v2)
   \<and> NewLogger_v3 ''report'' 1 levelMap_v3 = NewLogger_v3 ''report'' 2 (rev levelMap_v3)
   \<and> NewLogger_v3 ''report'' 1 levelMap_v3 =
       \<lparr>level = ReportLevel, isNull = False, id_field = [], currentFunc = [],
        currentTurn = 0, name = []\<rparr>
   \<and> NewLogger_v3 ''verbose'' 1 levelMap_v3 =
       \<lparr>level = InfoLevel, isNull = False, id_field = [], currentFunc = [],
        currentTurn = 0, name = []\<rparr>"
proof -
  have a: "range_order levelMap_v2 levelMap_v2"
    by (simp add: range_order_def levelMap_v2_def level_defs)
  have b: "range_order levelMap_v2 (rev levelMap_v2)"
    using a by (simp add: range_order_def)
  have c: "range_order levelMap_v3 levelMap_v3"
    by (simp add: range_order_def levelMap_v3_def level_defs)
  have d: "range_order levelMap_v3 (rev levelMap_v3)"
    using c by (simp add: range_order_def)
  have w: "NewLogger_v2 ''warn'' 1 levelMap_v2 = NewLogger_v2 ''warn'' 2 (rev levelMap_v2)"
    using NewLogger_ignores_index [OF a b c d, of "''warn''" 1 2] by (rule conjunct1)
  have r: "NewLogger_v3 ''report'' 1 levelMap_v3 = NewLogger_v3 ''report'' 2 (rev levelMap_v3)"
    using NewLogger_ignores_index [OF a b c d, of "''report''" 1 2] by blast
  have r': "NewLogger_v3 ''report'' 1 levelMap_v3 =
       \<lparr>level = ReportLevel, isNull = False, id_field = [], currentFunc = [],
        currentTurn = 0, name = []\<rparr>"
    using NewLogger_ignores_index
      [OF a b c d, of "''report''" 1 2, THEN conjunct2, THEN conjunct2, THEN conjunct2]
    by simp
  have v: "NewLogger_v3 ''verbose'' 1 levelMap_v3 =
       \<lparr>level = InfoLevel, isNull = False, id_field = [], currentFunc = [],
        currentTurn = 0, name = []\<rparr>"
    using NewLogger_ignores_index
      [OF a b c d, of "''verbose''" 1 2, THEN conjunct2, THEN conjunct2, THEN conjunct2]
    by simp
  show ?thesis
    by (intro conjI a b c d w r r' v)
qed

section \<open>The writers\<close>

subsection \<open>Routing\<close>

text \<open>
  C7. Under routing by id, a record that the writer takes while it is in its loop, and
  whose file opens and is written, is appended to one file and no other: the file
  \<^verbatim>\<open>game-<id>.log\<close> of the base directory when the id is not empty, \<^verbatim>\<open>generic.log\<close> of the
  base directory when it is. The base directory is \<^verbatim>\<open>battlesnakeLogs\<close> under \<^verbatim>\<open>HOME\<close>, or
  under \<^verbatim>\<open>/tmp\<close> when \<^verbatim>\<open>HOME\<close> is empty. The records of these two snapshots have no
  snake name. The witness is the record with id \<^verbatim>\<open>abc\<close>.
\<close>

theorem id_routing:
  assumes "open_err ops = None" and "write_err ops = None"
    and "fst (writeToFile_v1 env pre1 w) = Blocked"
    and "fst (writeToFile_v2 env pre2 w) = Blocked"
  shows "files (snd (writeToFile_v1 env (pre1 @ [(m1, ops)]) w)) =
           (let w' = snd (writeToFile_v1 env pre1 w);
                basedir = fst (setup_dir env w) @ ''/battlesnakeLogs'';
                path = (if LogData_v1.ID m1 = [] then basedir @ ''/generic.log''
                        else basedir @ ''/game-'' @ LogData_v1.ID m1 @ ''.log'')
            in (files w')(path \<mapsto> content w' path @ Bytes_v1 m1))
         \<and> fst (writeToFile_v1 env (pre1 @ [(m1, ops)]) w) = Blocked
         \<and> files (snd (writeToFile_v2 env (pre2 @ [(m2, ops)]) w)) =
           (let w' = snd (writeToFile_v2 env pre2 w);
                basedir = fst (setup_dir env w) @ ''/battlesnakeLogs'';
                path = (if LogData_v2.ID m2 = [] then basedir @ ''/generic.log''
                        else basedir @ ''/game-'' @ LogData_v2.ID m2 @ ''.log'')
            in (files w')(path \<mapsto> content w' path @ Bytes_v2 m2))
         \<and> fst (writeToFile_v2 env (pre2 @ [(m2, ops)]) w) = Blocked
         \<and> fst (setup_dir env w) = (if HOME env = [] then ''/tmp'' else HOME env)"
  using writeToFile_v1_appends [OF assms(3) assms(1) assms(2), of m1]
    writeToFile_v2_appends [OF assms(4) assms(1) assms(2), of m2]
  by (simp add: setup_dir_def)

theorem id_routing_witness:
  "open_err ops_ok = None \<and> write_err ops_ok = None
   \<and> fst (writeToFile_v1 home_env [] empty_world) = Blocked
   \<and> fst (writeToFile_v2 home_env [] empty_world) = Blocked
   \<and> LogData_v2.ID abc_record_v2 = ''abc''
   \<and> files (snd (writeToFile_v2 home_env [(abc_record_v2, ops_ok)] empty_world)) =
       [''/home/snake/battlesnakeLogs/game-abc.log'' \<mapsto>
          ''1600000000000000000 [info] boom \<newline>'']
   \<and> LogData_v1.ID abc_record_v1 = ''abc''
   \<and> files (snd (writeToFile_v1 home_env [(abc_record_v1, ops_ok)] empty_world)) =
       [''/home/snake/battlesnakeLogs/game-abc.log'' \<mapsto>
          ''1600000000000000000 [info] boom \<newline>'']
   \<and> LogData_v2.ID generic_record_v2 = []
   \<and> files (snd (writeToFile_v2 home_env [(generic_record_v2, ops_ok)] empty_world)) =
       [''/home/snake/battlesnakeLogs/generic.log'' \<mapsto>
          ''1600000001000000000 [error] bang \<newline>'']"
proof -
  have o: "open_err ops_ok = None" "write_err ops_ok = None"
    by (simp_all add: ops_ok_def)
  have b1: "fst (writeToFile_v1 home_env [] empty_world) = Blocked"
    by (simp add: writeToFile_v1_unfold)
  have b2: "fst (writeToFile_v2 home_env [] empty_world) = Blocked"
    by (simp add: writeToFile_v2_unfold)
  have w1: "snd (writeToFile_v1 home_env [] empty_world) = empty_world"
    by (simp add: writeToFile_v1_unfold sample_defs run_defs)
  have w2: "snd (writeToFile_v2 home_env [] empty_world) = empty_world"
    by (simp add: writeToFile_v2_unfold sample_defs run_defs)
  have d: "fst (setup_dir home_env empty_world) = ''/home/snake''"
    by (simp add: setup_dir_def home_env_def)
  have e: "files empty_world = Map.empty" "\<And>p. content empty_world p = []"
    by (simp_all add: empty_world_def content_def)
  have s1: "Bytes_v1 abc_record_v1 = ''1600000000000000000 [info] boom \<newline>''"
    and s2: "Bytes_v2 abc_record_v2 = ''1600000000000000000 [info] boom \<newline>''"
    and s3: "Bytes_v2 generic_record_v2 = ''1600000001000000000 [error] bang \<newline>''"
    by (simp_all add: Bytes_v1_def Bytes_v2_def String_v1_def String_v2_def FormatInt_def
        decimal.simps digits_def sample_defs)
  have i: "LogData_v2.ID abc_record_v2 = ''abc''" "LogData_v1.ID abc_record_v1 = ''abc''"
    "LogData_v2.ID generic_record_v2 = []"
    by (simp_all add: sample_defs)
  note t1 = id_routing [OF o b1 b2, of abc_record_v1 abc_record_v2]
  note t2 = id_routing [OF o b1 b2, of abc_record_v1 generic_record_v2]
  have r1: "files (snd (writeToFile_v1 home_env [(abc_record_v1, ops_ok)] empty_world)) =
       [''/home/snake/battlesnakeLogs/game-abc.log'' \<mapsto>
          ''1600000000000000000 [info] boom \<newline>'']"
    using t1 [THEN conjunct1] by (simp add: w1 d e s1 i Let_def)
  have r2: "files (snd (writeToFile_v2 home_env [(abc_record_v2, ops_ok)] empty_world)) =
       [''/home/snake/battlesnakeLogs/game-abc.log'' \<mapsto>
          ''1600000000000000000 [info] boom \<newline>'']"
    using t1 [THEN conjunct2, THEN conjunct2, THEN conjunct1]
    by (simp add: w2 d e s2 i Let_def)
  have r3: "files (snd (writeToFile_v2 home_env [(generic_record_v2, ops_ok)] empty_world)) =
       [''/home/snake/battlesnakeLogs/generic.log'' \<mapsto>
          ''1600000001000000000 [error] bang \<newline>'']"
    using t2 [THEN conjunct2, THEN conjunct2, THEN conjunct1]
    by (simp add: w2 d e s3 i Let_def)
  show ?thesis
    by (intro conjI o b1 b2 i r1 r2 r3)
qed

text \<open>
  C3. Under routing by name, a record with an empty snake name should go to
  \<^verbatim>\<open>generic.log\<close> inside the base directory. The writer builds the path as
  \<^verbatim>\<open>basedir + "generic.log"\<close>, without the separator that the other branch of the same
  test and the writers routed by id put there. With \<^verbatim>\<open>HOME=/home/snake\<close> the record lands
  in \<^verbatim>\<open>/home/snake/battlesnakeLogsgeneric.log\<close>, beside the base directory, and
  \<^verbatim>\<open>/home/snake/battlesnakeLogs/generic.log\<close> is not created.
\<close>

theorem nameless_record_lands_beside_base_directory:
  "SnakeName nameless_record_v3 = []
   \<and> fst (writeToFile_v3 home_env [(nameless_record_v3, ops_ok)] empty_world) = Blocked
   \<and> files (snd (writeToFile_v3 home_env [(nameless_record_v3, ops_ok)] empty_world))
        ''/home/snake/battlesnakeLogs/generic.log'' = None
   \<and> files (snd (writeToFile_v3 home_env [(nameless_record_v3, ops_ok)] empty_world))
        ''/home/snake/battlesnakeLogsgeneric.log'' =
      Some ''2020-09-13T12:26:40.000000000 abc (3) <move> [info] boom \<newline>''"
  by (simp add: writeToFile_v3_def writeToFile_v3_iter_def Bytes_v3_def String_v3_def
      FormatInt_def decimal.simps digits_def sample_defs run_defs)

subsection \<open>A file that does not open\<close>

text \<open>
  C4, as the claim has it: a failure to open the file ends the writer and the process
  with it, in the JSON sink as in the text sink. The JSON sink prints the error and
  leaves its loop by \<^verbatim>\<open>break\<close>: the function returns and the process goes on.
\<close>

theorem json_sink_open_failure_leaves_process_running:
  "open_err ops_open_fails = Some ''permission denied''
   \<and> writeJSONToFile quote_plain home_env [(abc_record_v2, ops_open_fails)] empty_world =
       (Returned, \<lparr>files = Map.empty, stdout = [''permission denied'']\<rparr>)
   \<and> \<not> process_terminated
         (fst (writeJSONToFile quote_plain home_env [(abc_record_v2, ops_open_fails)]
                empty_world))"
  by (simp add: writeJSONToFile_def writeJSONToFile_iter_def json_Marshal_def
      sample_defs run_defs)

text \<open>
  C4, amended: in every writer a failure to open the file ends the writer's task at that
  record, whatever was sent after it. The text sinks end it by \<^verbatim>\<open>log.Fatal\<close>, which ends
  the process as well; the JSON sink prints the error and returns, and the process goes
  on without that sink.
\<close>

theorem open_failure_ends_the_writer:
  assumes "open_err ops = Some e"
  shows "(fst (writeToFile_v1 env pre1 w) = Blocked \<longrightarrow>
            writeToFile_v1 env (pre1 @ (m1, ops) # c1) w =
              (Exited e, snd (writeToFile_v1 env pre1 w)))
         \<and> (fst (writeToFile_v2 env pre2 w) = Blocked \<longrightarrow>
            writeToFile_v2 env (pre2 @ (m2, ops) # c2) w =
              (Exited e, snd (writeToFile_v2 env pre2 w)))
         \<and> (fst (writeToFile_v3 env pre3 w) = Blocked \<longrightarrow>
            writeToFile_v3 env (pre3 @ (m3, ops) # c3) w =
              (Exited e, snd (writeToFile_v3 env pre3 w)))
         \<and> (fst (writeJSONToFile quote env pre w) = Blocked \<longrightarrow>
            writeJSONToFile quote env (pre @ (m, ops) # c) w =
              (Returned, Println (snd (writeJSONToFile quote env pre w)) e))
         \<and> task_terminated (Exited e) \<and> process_terminated (Exited e)
         \<and> task_terminated Returned \<and> \<not> process_terminated Returned"
  using assms
  by (simp add: writeToFile_v1_open_failure writeToFile_v2_open_failure
      writeToFile_v3_open_failure writeJSONToFile_open_failure)

theorem open_failure_ends_the_writer_witness:
  "open_err ops_open_fails = Some ''permission denied''
   \<and> fst (writeToFile_v2 home_env [(abc_record_v2, ops_ok)] empty_world) = Blocked
   \<and> fst (writeToFile_v2 home_env
            [(abc_record_v2, ops_ok), (generic_record_v2, ops_open_fails),
             (abc_record_v2, ops_ok)] empty_world) = Exited ''permission denied''
   \<and> fst (writeToFile_v3 home_env [] empty_world) = Blocked
   \<and> fst (writeToFile_v3 home_env [(nameless_record_v3, ops_open_fails)] empty_world) =
       Exited ''permission denied''
   \<and> fst (writeJSONToFile quote_plain home_env [] empty_world) = Blocked
   \<and> fst (writeJSONToFile quote_plain home_env [(abc_record_v2, ops_open_fails)]
            empty_world) = Returned"
proof -
  have o: "open_err ops_open_fails = Some ''permission denied''"
    by (simp add: ops_open_fails_def)
  have ok: "open_err ops_ok = None" "write_err ops_ok = None"
    by (simp_all add: ops_ok_def)
  have b1: "fst (writeToFile_v1 home_env [] empty_world) = Blocked"
    by (simp add: writeToFile_v1_unfold)
  have b2: "fst (writeToFile_v2 home_env [] empty_world) = Blocked"
    by (simp add: writeToFile_v2_unfold)
  have b3: "fst (writeToFile_v3 home_env [] empty_world) = Blocked"
    by (simp add: writeToFile_v3_unfold)
  have bj: "fst (writeJSONToFile quote_plain home_env [] empty_world) = Blocked"
    by (simp add: writeJSONToFile_unfold)
  have b2': "fst (writeToFile_v2 home_env [(abc_record_v2, ops_ok)] empty_world) = Blocked"
    using writeToFile_v2_appends(1) [OF b2 ok, of abc_record_v2] by simp
  have r2: "fst (writeToFile_v2 home_env
            [(abc_record_v2, ops_ok), (generic_record_v2, ops_open_fails),
             (abc_record_v2, ops_ok)] empty_world) = Exited ''permission denied''"
    using open_failure_ends_the_writer
      [OF o, where env = home_env and w = empty_world
        and ?pre2.0 = "[(abc_record_v2, ops_ok)]" and ?m2.0 = generic_record_v2
        and ?c2.0 = "[(abc_record_v2, ops_ok)]",
        THEN conjunct2, THEN conjunct1] b2'
    by simp
  have r3: "fst (writeToFile_v3 home_env [(nameless_record_v3, ops_open_fails)] empty_world) =
       Exited ''permission denied''"
    using open_failure_ends_the_writer
      [OF o, where env = home_env and w = empty_world
        and ?pre3.0 = "[]" and ?m3.0 = nameless_record_v3 and ?c3.0 = "[]",
        THEN conjunct2, THEN conjunct2, THEN conjunct1] b3
    by simp
  have rj: "fst (writeJSONToFile quote_plain home_env [(abc_record_v2, ops_open_fails)]
            empty_world) = Returned"
    using open_failure_ends_the_writer
      [OF o, where env = home_env and w = empty_world and quote = quote_plain
        and pre = "[]" and m = abc_record_v2 and c = "[]",
        THEN conjunct2, THEN conjunct2, THEN conjunct2, THEN conjunct1] bj
    by simp
  show ?thesis
    by (intro conjI o b2' r2 b3 r3 bj rj)
qed

subsection \<open>The text line\<close>

text \<open>
  C6, as the claim has it: the line of the context-free form is the nanoseconds, a
  space, the severity in brackets, a space, the message and a newline, with nothing
  else. The format is \<^verbatim>\<open>"%v [%s] %s \n"\<close>: a space stands between the message and the
  newline.
\<close>

theorem text_line_has_space_before_newline:
  "String_v2 abc_record_v2 = ''1600000000000000000 [info] boom \<newline>''
   \<and> String_v2 abc_record_v2 \<noteq> ''1600000000000000000 [info] boom\<newline>''
   \<and> String_v1 abc_record_v1 = ''1600000000000000000 [info] boom \<newline>''
   \<and> String_v1 abc_record_v1 \<noteq> ''1600000000000000000 [info] boom\<newline>''"
  by (simp add: String_v2_def String_v1_def FormatInt_def decimal.simps digits_def sample_defs)

text \<open>
  C6, amended: the line of the context-free form is the decimal nanoseconds, a space,
  the severity in brackets, a space, the message, a space and a newline; these are the
  bytes the text sink writes.
\<close>

theorem text_line_format:
  "String_v1 l1 =
     FormatInt (sint (Time l1)) @ '' ['' @ LogData_v1.Sev l1 @ ''] '' @ LogData_v1.Msg l1 @
     '' \<newline>''
   \<and> Bytes_v1 l1 = String_v1 l1
   \<and> String_v2 l2 =
     FormatInt (sint (UnixTimeStamp l2)) @ '' ['' @ LogData_v2.Sev l2 @ ''] '' @
     LogData_v2.Msg l2 @ '' \<newline>''
   \<and> Bytes_v2 l2 = String_v2 l2"
  by (simp add: String_v1_def String_v2_def Bytes_v1_def Bytes_v2_def)

theorem text_line_format_witness:
  "String_v1 abc_record_v1 = ''1600000000000000000 [info] boom \<newline>''
   \<and> Bytes_v2 abc_record_v2 = ''1600000000000000000 [info] boom \<newline>''
   \<and> Bytes_v2 generic_record_v2 = ''1600000001000000000 [error] bang \<newline>''"
  using text_line_format [of abc_record_v1 abc_record_v2]
    text_line_format [of abc_record_v1 generic_record_v2]
  by (simp add: FormatInt_def decimal.simps digits_def sample_defs)

subsection \<open>The JSON stream\<close>

text \<open>
  C8, as the claim has it: each record the JSON sink appends is followed by a newline.
  The sink writes the bytes of \<^verbatim>\<open>json.Marshal\<close> and nothing after them, so two records
  stand in the file back to back, the closing brace of the first against the opening
  brace of the second, and the file holds no newline at all.
\<close>

theorem json_records_run_together:
  \<open>content
     (snd (writeJSONToFile quote_plain home_env
            [(abc_record_v2, ops_ok), (generic_record_v2, ops_ok)] empty_world))
     ''/home/snake/battlesnakeJSON/battlesnake.json'' =
   ''{"ID":"abc","Sev":"info","Msg":"boom","Timestamp":"2020-09-13T12:26:40.000000000","UnixTimeStamp":1600000000000000000,"Turn":3,"Function":"move"}{"ID":"","Sev":"error","Msg":"bang","Timestamp":"2020-09-13T12:26:41.000000000","UnixTimeStamp":1600000001000000000,"Turn":0,"Function":""}''
   \<and> CHR ''\<newline>'' \<notin> set (content
     (snd (writeJSONToFile quote_plain home_env
            [(abc_record_v2, ops_ok), (generic_record_v2, ops_ok)] empty_world))
     ''/home/snake/battlesnakeJSON/battlesnake.json'')\<close>
  by (simp add: writeJSONToFile_def writeJSONToFile_iter_def json_Marshal_def quote_plain_def
      FormatInt_def decimal.simps digits_def sample_defs run_defs)

text \<open>
  C8, amended: each record the JSON sink appends is one JSON object, the output of
  \<^verbatim>\<open>json.Marshal\<close>, which begins with an opening brace and ends with the closing one;
  no delimiter is written after it, and no other file is touched.
\<close>

theorem json_sink_appends_bare_object:
  assumes "open_err ops = None" and "write_err ops = None"
    and "fst (writeJSONToFile quote env pre w) = Blocked"
    and "json_Marshal quote m = Inr obj"
  shows "files (snd (writeJSONToFile quote env (pre @ [(m, ops)]) w)) =
           (let w' = snd (writeJSONToFile quote env pre w);
                filename = fst (setup_dir env w) @ ''/battlesnakeJSON/battlesnake.json''
            in (files w')(filename \<mapsto> content w' filename @ obj))
         \<and> fst (writeJSONToFile quote env (pre @ [(m, ops)]) w) = Blocked
         \<and> hd obj = CHR ''{'' \<and> last obj = CHR ''}''"
proof -
  obtain body where "json_Marshal quote m = Inr (CHR ''{'' # body @ ''}'')"
    using json_Marshal_shape by blast
  with assms(4) have "obj = CHR ''{'' # body @ ''}''" by simp
  then have "hd obj = CHR ''{''" and "last obj = CHR ''}''" by simp_all
  then show ?thesis
    using writeJSONToFile_appends [OF assms(3) assms(1) assms(2) assms(4)] by simp
qed

theorem json_sink_appends_bare_object_witness:
  \<open>open_err ops_ok = None \<and> write_err ops_ok = None
   \<and> fst (writeJSONToFile quote_plain home_env [] empty_world) = Blocked
   \<and> json_Marshal quote_plain generic_record_v2 =
       Inr ''{"ID":"","Sev":"error","Msg":"bang","Timestamp":"2020-09-13T12:26:41.000000000","UnixTimeStamp":1600000001000000000,"Turn":0,"Function":""}''
   \<and> files (snd (writeJSONToFile quote_plain home_env [(generic_record_v2, ops_ok)]
                   empty_world)) =
       [''/home/snake/battlesnakeJSON/battlesnake.json'' \<mapsto>
          ''{"ID":"","Sev":"error","Msg":"bang","Timestamp":"2020-09-13T12:26:41.000000000","UnixTimeStamp":1600000001000000000,"Turn":0,"Function":""}'']\<close>
proof -
  have o: "open_err ops_ok = None" "write_err ops_ok = None"
    by (simp_all add: ops_ok_def)
  have b: "fst (writeJSONToFile quote_plain home_env [] empty_world) = Blocked"
    by (simp add: writeJSONToFile_unfold)
  have w: "snd (writeJSONToFile quote_plain home_env [] empty_world) = empty_world"
    by (simp add: writeJSONToFile_unfold sample_defs run_defs)
  have d: "fst (setup_dir home_env empty_world) = ''/home/snake''"
    by (simp add: setup_dir_def home_env_def)
  have e: "files empty_world = Map.empty" "\<And>p. content empty_world p = []"
    by (simp_all add: empty_world_def content_def)
  have j: \<open>json_Marshal quote_plain generic_record_v2 =
       Inr ''{"ID":"","Sev":"error","Msg":"bang","Timestamp":"2020-09-13T12:26:41.000000000","UnixTimeStamp":1600000001000000000,"Turn":0,"Function":""}''\<close>
    by (simp add: json_Marshal_def quote_plain_def FormatInt_def decimal.simps digits_def
        sample_defs)
  have r: \<open>files (snd (writeJSONToFile quote_plain home_env [(generic_record_v2, ops_ok)]
                   empty_world)) =
       [''/home/snake/battlesnakeJSON/battlesnake.json'' \<mapsto>
          ''{"ID":"","Sev":"error","Msg":"bang","Timestamp":"2020-09-13T12:26:41.000000000","UnixTimeStamp":1600000001000000000,"Turn":0,"Function":""}'']\<close>
    using json_sink_appends_bare_object [OF o b j, THEN conjunct1]
    by (simp add: w d e Let_def)
  show ?thesis
    by (intro conjI o b j r)
qed

end
